theory Spec2Isabelle
  imports Complex_Main "HOL-Library.Monad_Syntax"
begin

section \<open>Values shared by the provider and the client\<close>

text \<open>
  Python strings are modelled as \<open>string\<close> holding the UTF-8 bytes of the text, so the
  non-ASCII letters and pictographs of the source appear as byte lists. A raised Python
  exception is the value \<open>None\<close> of an \<open>option\<close>: every handler of the source catches
  \<open>Exception\<close> without looking at its class.
\<close>

datatype json =
    JNull
  | JBool bool
  | JNum real
  | JStr string
  | JArr "json list"
  | JObj "(string \<times> json) list"

section \<open>The quote provider (sleep\_advice\_server.py)\<close>

record SleepQuote =
  quote_id :: int
  quote :: string
  author :: string
  category :: string
  time_of_day :: string
  mood :: string

record SleepQuotesDatabase =
  quotes :: "SleepQuote list"
  user_preferences :: "(string \<times> json) list"

definition initialize_quotes :: "SleepQuote list" where
  "initialize_quotes =
  [\<lparr>quote_id = 1,
      quote = ''Cada noche es una oportunidad para que tu mente y cuerpo se regeneren completamente.'',
      author = ''Dr. Sleep Coach'',
      category = ''sleep_hygiene'', time_of_day = ''night'', mood = ''peaceful''\<rparr>,
     \<lparr>quote_id = 2,
      quote = ''El sue'' @ [CHR 0xC3, CHR 0xB1] @ ''o es la mejor meditaci'' @ [CHR 0xC3, CHR 0xB3]
        @ ''n que existe. Entr'' @ [CHR 0xC3, CHR 0xA9] @ ''gate a '' @ [CHR 0xC3, CHR 0xA9]
        @ ''l con gratitud.'',
      author = ''Dalai Lama'',
      category = ''mindfulness'', time_of_day = ''night'', mood = ''calm''\<rparr>,
     \<lparr>quote_id = 3,
      quote = ''Tu cerebro trabaja toda la noche organizando los recuerdos del d''
        @ [CHR 0xC3, CHR 0xAD] @ ''a. Dale el descanso que merece.'',
      author = ''Neuroscience Today'',
      category = ''science'', time_of_day = ''night'', mood = ''educational''\<rparr>,
     \<lparr>quote_id = 4,
      quote = ''Desconecta los dispositivos, conecta con tus sue'' @ [CHR 0xC3, CHR 0xB1] @ ''os.'',
      author = ''Sleep Expert'',
      category = ''sleep_hygiene'', time_of_day = ''evening'', mood = ''motivational''\<rparr>,
     \<lparr>quote_id = 5,
      quote = ''El sue'' @ [CHR 0xC3, CHR 0xB1]
        @ ''o es el momento en que tu cuerpo repara, tu mente procesa y tu alma descansa.'',
      author = ''Wellness Guru'',
      category = ''holistic'', time_of_day = ''night'', mood = ''peaceful''\<rparr>,
     \<lparr>quote_id = 6,
      quote = ''Cada amanecer es una nueva p'' @ [CHR 0xC3, CHR 0xA1] @ ''gina en blanco. ''
        @ [CHR 0xC2, CHR 0xBF] @ ''C'' @ [CHR 0xC3, CHR 0xB3] @ ''mo la vas a escribir hoy?'',
      author = ''Morning Wisdom'',
      category = ''motivation'', time_of_day = ''morning'', mood = ''motivational''\<rparr>,
     \<lparr>quote_id = 7,
      quote = ''Un buen d'' @ [CHR 0xC3, CHR 0xAD] @ ''a comienza con una noche de sue''
        @ [CHR 0xC3, CHR 0xB1] @ ''o reparador. Tu cuerpo te lo agradece.'',
      author = ''Health Coach'',
      category = ''wellness'', time_of_day = ''morning'', mood = ''calm''\<rparr>,
     \<lparr>quote_id = 8,
      quote = ''El sol sale para recordarte que cada d'' @ [CHR 0xC3, CHR 0xAD]
        @ ''a es una nueva oportunidad de brillar.'',
      author = ''Sun Wisdom'',
      category = ''inspiration'', time_of_day = ''morning'', mood = ''motivational''\<rparr>,
     \<lparr>quote_id = 9,
      quote = ''A medida que el d'' @ [CHR 0xC3, CHR 0xAD]
        @ ''a llega a su fin, permite que tu mente tambi'' @ [CHR 0xC3, CHR 0xA9]
        @ ''n encuentre paz.'',
      author = ''Evening Reflection'',
      category = ''mindfulness'', time_of_day = ''evening'', mood = ''reflective''\<rparr>,
     \<lparr>quote_id = 10,
      quote = ''Una habitaci'' @ [CHR 0xC3, CHR 0xB3]
        @ ''n oscura, fresca y silenciosa es el templo sagrado del sue'' @ [CHR 0xC3, CHR 0xB1]
        @ ''o reparador.'',
      author = ''Sleep Environment Expert'',
      category = ''sleep_hygiene'', time_of_day = ''evening'', mood = ''educational''\<rparr>,
     \<lparr>quote_id = 11,
      quote = ''La cafe'' @ [CHR 0xC3, CHR 0xAD]
        @ ''na permanece en tu sistema hasta 8 horas. Planifica tu '' @ [CHR 0xC3, CHR 0xBA]
        @ ''ltima taza sabiamente.'',
      author = ''Sleep Science'',
      category = ''sleep_hygiene'', time_of_day = ''evening'', mood = ''educational''\<rparr>,
     \<lparr>quote_id = 12,
      quote = ''Tu cama es solo para dormir y relajarte. Mantenla como un santuario de descanso.'',
      author = ''Sleep Hygiene Pro'',
      category = ''sleep_hygiene'', time_of_day = ''evening'', mood = ''motivational''\<rparr>,
     \<lparr>quote_id = 13,
      quote = ''Respirar profundamente por 4 segundos, mantener por 7, exhalar por 8. La t''
        @ [CHR 0xC3, CHR 0xA9] @ ''cnica 4-7-8 para el sue'' @ [CHR 0xC3, CHR 0xB1] @ ''o.'',
      author = ''Dr. Andrew Weil'',
      category = ''techniques'', time_of_day = ''night'', mood = ''calm''\<rparr>,
     \<lparr>quote_id = 14,
      quote = ''La luz azul de las pantallas confunde a tu cerebro. Dale una hora de descanso antes de dormir.'',
      author = ''Circadian Rhythm Expert'',
      category = ''sleep_hygiene'', time_of_day = ''evening'', mood = ''educational''\<rparr>,
     \<lparr>quote_id = 15,
      quote = ''Dormir no es tiempo perdido, es inversi'' @ [CHR 0xC3, CHR 0xB3]
        @ ''n en tu salud, productividad y felicidad del ma'' @ [CHR 0xC3, CHR 0xB1] @ ''ana.'',
      author = ''Productivity Coach'',
      category = ''motivation'', time_of_day = ''night'', mood = ''motivational''\<rparr>]"

definition new_database :: SleepQuotesDatabase where
  "new_database = \<lparr>quotes = initialize_quotes, user_preferences = []\<rparr>"

text \<open>\<open>getattr(q, key)\<close>; an attribute the dataclass does not have raises.\<close>

definition getattr :: "SleepQuote \<Rightarrow> string \<Rightarrow> json option" where
  "getattr q key =
     (if key = ''id'' then Some (JNum (real_of_int (quote_id q)))
      else if key = ''quote'' then Some (JStr (quote q))
      else if key = ''author'' then Some (JStr (author q))
      else if key = ''category'' then Some (JStr (category q))
      else if key = ''time_of_day'' then Some (JStr (time_of_day q))
      else if key = ''mood'' then Some (JStr (mood q))
      else None)"

text \<open>
  \<open>random.choice(seq)\<close> raises IndexError on an empty sequence and otherwise returns
  \<open>seq[randbelow(len(seq))]\<close>. The draw of the generator is the argument \<open>r\<close>, reduced
  below the length.
\<close>

definition choice :: "nat \<Rightarrow> 'a list \<Rightarrow> 'a option" where
  "choice r seq = (if seq = [] then None else Some (seq ! (r mod length seq)))"

text \<open>The loop of \<open>get_random_quote\<close> over the keyword arguments, in their order.\<close>

fun filter_loop :: "(string \<times> json) list \<Rightarrow> SleepQuote list \<Rightarrow> SleepQuote list" where
  "filter_loop [] filtered_quotes = filtered_quotes"
| "filter_loop ((key, value) # filters) filtered_quotes =
     filter_loop filters
       (if key \<in> set [''category'', ''time_of_day'', ''mood'']
        then [q \<leftarrow> filtered_quotes. getattr q key = Some value]
        else filtered_quotes)"

definition get_random_quote ::
  "SleepQuotesDatabase \<Rightarrow> (string \<times> json) list \<Rightarrow> nat \<Rightarrow> SleepQuote option" where
  "get_random_quote self filters r =
     (let filtered_quotes = filter_loop filters (quotes self);
          filtered_quotes = (if filtered_quotes = [] then quotes self else filtered_quotes)
      in choice r filtered_quotes)"

text \<open>\<open>current_hour\<close> is \<open>datetime.now().hour\<close>.\<close>

definition get_quote_by_time :: "SleepQuotesDatabase \<Rightarrow> int \<Rightarrow> nat \<Rightarrow> SleepQuote option" where
  "get_quote_by_time self current_hour r =
     (let time_filter =
            (if 6 \<le> current_hour \<and> current_hour < 18 then ''morning''
             else if 18 \<le> current_hour \<and> current_hour < 22 then ''evening''
             else ''night'')
      in get_random_quote self [(''time_of_day'', JStr time_filter)] r)"

definition get_sleep_tip :: "SleepQuotesDatabase \<Rightarrow> nat \<Rightarrow> SleepQuote option" where
  "get_sleep_tip self r = get_random_quote self [(''category'', JStr ''sleep_hygiene'')] r"

section \<open>The fallback client (remote\_client.py)\<close>

subsection \<open>Python values and operations the client uses\<close>

type_synonym pydict = "(string \<times> json) list"

text \<open>Truth value of a parsed JSON value, as \<open>if x:\<close> and \<open>not x\<close> take it.\<close>

fun py_bool :: "json \<Rightarrow> bool" where
  "py_bool JNull = False"
| "py_bool (JBool b) = b"
| "py_bool (JNum x) = (x \<noteq> 0)"
| "py_bool (JStr s) = (s \<noteq> [])"
| "py_bool (JArr xs) = (xs \<noteq> [])"
| "py_bool (JObj kvs) = (kvs \<noteq> [])"

text \<open>
  \<open>d[key]\<close> with a string key: KeyError on a dict without the key, TypeError on every
  other value. The keys of a parsed object are distinct, so the first binding is the binding.
\<close>

fun subscript :: "json \<Rightarrow> string \<Rightarrow> json option" where
  "subscript (JObj kvs) key = map_of kvs key"
| "subscript _ key = None"

text \<open>\<open>d.get(key)\<close>: \<open>None\<close> for a missing key, AttributeError when \<open>d\<close> is not a dict.\<close>

fun dict_get :: "json \<Rightarrow> string \<Rightarrow> json option" where
  "dict_get (JObj kvs) key = Some (case map_of kvs key of None \<Rightarrow> JNull | Some v \<Rightarrow> v)"
| "dict_get _ key = None"

text \<open>\<open>key in d\<close>, used by the source only where \<open>d\<close> has already been subscripted as a dict.\<close>

fun has_key :: "json \<Rightarrow> string \<Rightarrow> bool" where
  "has_key (JObj kvs) key = (key \<in> fst ` set kvs)"
| "has_key _ key = False"

text \<open>The receiver of a \<open>str\<close> method: AttributeError when the value is not a string.\<close>

fun as_str :: "json \<Rightarrow> string option" where
  "as_str (JStr s) = Some s"
| "as_str _ = None"

definition replace_underscores :: "string \<Rightarrow> string" where
  "replace_underscores s = map (\<lambda>c. if c = CHR ''_'' then CHR '' '' else c) s"

text \<open>\<open>str(x)\<close> inside an f-string, for an optional string, a bool and a natural number.\<close>

definition str_optional :: "string option \<Rightarrow> string" where
  "str_optional x = (case x of None \<Rightarrow> ''None'' | Some s \<Rightarrow> s)"

definition str_bool :: "bool \<Rightarrow> string" where
  "str_bool b = (if b then ''True'' else ''False'')"

fun str_nat :: "nat \<Rightarrow> string" where
  "str_nat n =
     (if n < 10 then [''0123456789'' ! n]
      else str_nat (n div 10) @ [''0123456789'' ! (n mod 10)])"

subsection \<open>The world outside the client\<close>

text \<open>
  \<open>Raised\<close>: \<open>session.get\<close> raised (no session, connection refused, timeout). Otherwise
  the status and the parsed body, \<open>None\<close> when \<open>response.json()\<close> raises.
\<close>

datatype http_result = Raised | Response int "json option"

record request =
  req_url :: string
  req_params :: "(string \<times> json) list"

text \<open>
  A reading of \<open>datetime.now()\<close>, as the methods the client calls on it return it. The
  float of \<open>timestamp()\<close> is taken as the real number it stands for.
\<close>

record datetime =
  to_timestamp :: real
  strftime_HM :: string
  strftime_Ymd :: string
  strftime_AdB :: string

text \<open>
  What one call of a query method meets: the answer of the network to the request it
  sends, the reading of the clock at each place the method reads it (no place is reached
  twice in one call), and the two library functions whose result is only text:
  \<open>str.title\<close> and the rendering of a value that is not a string inside an f-string.
\<close>

record runtime =
  net :: "request \<Rightarrow> http_result"
  now_key :: datetime
  now_valid :: datetime
  now_date :: datetime
  now_time :: datetime
  now_store :: datetime
  title_of :: "string \<Rightarrow> string"
  repr_of :: "json \<Rightarrow> string"

definition format_value :: "runtime \<Rightarrow> json \<Rightarrow> string" where
  "format_value env v = (case v of JStr s \<Rightarrow> s | _ \<Rightarrow> repr_of env v)"

subsection \<open>Client state\<close>

record cache_entry =
  entry_data :: pydict
  entry_timestamp :: real

record RemoteSleepQuotesClient =
  fallback_urls :: "string list"
  server_url :: string
  is_connected :: bool
  cache :: "string \<rightharpoonup> cache_entry"
  cache_ttl :: real

definition init :: "string option \<Rightarrow> RemoteSleepQuotesClient" where
  "init server_url' =
     (let fallback_urls' =
            [''https://sleep-quotes-mcp.onrender.com'',
             ''https://sleep-quotes-mcp.railway.app'',
             ''https://sleep-quotes-mcp.fly.dev'',
             ''http://localhost:8000'']
      in \<lparr>fallback_urls = fallback_urls',
          server_url = (case server_url' of
                          None \<Rightarrow> fallback_urls' ! 0
                        | Some u \<Rightarrow> if u \<noteq> [] then u else fallback_urls' ! 0),
          is_connected = False,
          cache = Map.empty,
          cache_ttl = 300\<rparr>)"

subsection \<open>Endpoint discovery\<close>

definition health_request :: "string \<Rightarrow> request" where
  "health_request url = \<lparr>req_url = url @ ''/health'', req_params = []\<rparr>"

text \<open>The test of one loop iteration: status 200 and \<open>data.get("status") == "healthy"\<close>.\<close>

definition is_healthy :: "http_result \<Rightarrow> bool" where
  "is_healthy response =
     (case response of
        Raised \<Rightarrow> False
      | Response status body \<Rightarrow>
          if status = 200 then
            (case body of
               None \<Rightarrow> False
             | Some data \<Rightarrow> dict_get data ''status'' = Some (JStr ''healthy''))
          else False)"

text \<open>
  The loop of \<open>test_connection\<close>. \<open>probe n\<close> is the network's answer to the probe sent
  when \<open>n\<close> probes have been sent before it in this pass. The result is the returned bool,
  the client after the pass and the probes sent, in order.
\<close>

fun test_connection_loop ::
  "(nat \<Rightarrow> request \<Rightarrow> http_result) \<Rightarrow> RemoteSleepQuotesClient \<Rightarrow> nat \<Rightarrow> string list
     \<Rightarrow> bool \<times> RemoteSleepQuotesClient \<times> request list" where
  "test_connection_loop probe self n [] = (False, self\<lparr>is_connected := False\<rparr>, [])"
| "test_connection_loop probe self n (url # urls) =
     (if is_healthy (probe n (health_request url))
      then (True, self\<lparr>server_url := url, is_connected := True\<rparr>, [health_request url])
      else (case test_connection_loop probe self (Suc n) urls of
              (ok, self', sent) \<Rightarrow> (ok, self', health_request url # sent)))"

definition test_connection ::
  "(nat \<Rightarrow> request \<Rightarrow> http_result) \<Rightarrow> RemoteSleepQuotesClient
     \<Rightarrow> bool \<times> RemoteSleepQuotesClient \<times> request list" where
  "test_connection probe self =
     test_connection_loop probe self 0 ([server_url self] @ fallback_urls self)"

subsection \<open>The cache\<close>

definition is_cache_valid :: "RemoteSleepQuotesClient \<Rightarrow> datetime \<Rightarrow> string \<Rightarrow> bool" where
  "is_cache_valid self now cache_key =
     (case cache self cache_key of
        None \<Rightarrow> False
      | Some entry \<Rightarrow> to_timestamp now - entry_timestamp entry < cache_ttl self)"

definition set_cache ::
  "RemoteSleepQuotesClient \<Rightarrow> datetime \<Rightarrow> string \<Rightarrow> pydict \<Rightarrow> RemoteSleepQuotesClient" where
  "set_cache self now cache_key data =
     self\<lparr>cache := (cache self)(cache_key \<mapsto>
                      \<lparr>entry_data = data, entry_timestamp = to_timestamp now\<rparr>)\<rparr>"

definition get_cache :: "RemoteSleepQuotesClient \<Rightarrow> datetime \<Rightarrow> string \<Rightarrow> pydict option" where
  "get_cache self now cache_key =
     (if is_cache_valid self now cache_key
      then map_option entry_data (cache self cache_key)
      else None)"

subsection \<open>Offline fallback\<close>

definition offline_quote_message :: string where
  "offline_quote_message =
     [CHR 0xE2, CHR 0x9D, CHR 0x8C] @ '' SERVIDOR REMOTO NO DISPONIBLE''
       @ [CHR 0x0A, CHR 0x0A, CHR 0xF0, CHR 0x9F, CHR 0x94, CHR 0x8C]
       @ '' No se pudo conectar al servidor de citas inspiracionales.''
       @ [CHR 0x0A, CHR 0x0A, CHR 0xF0, CHR 0x9F, CHR 0x92, CHR 0xA1] @ '' Cita offline:''
       @ [CHR 0x0A, CHR 0x22] @ ''El sue'' @ [CHR 0xC3, CHR 0xB1] @ ''o es la mejor inversi''
       @ [CHR 0xC3, CHR 0xB3] @ ''n que puedes hacer en tu bienestar. Descansa bien esta noche.''
       @ [CHR 0x22, CHR 0x0A, CHR 0xE2, CHR 0x80, CHR 0x94] @ '' Sleep Coach Local''
       @ [CHR 0x0A, CHR 0x0A, CHR 0xF0, CHR 0x9F, CHR 0x8C, CHR 0x99] @ '' El servidor estar''
       @ [CHR 0xC3, CHR 0xA1] @ '' disponible pronto. '' @ [CHR 0xC2, CHR 0xA1] @ ''Dulces sue''
       @ [CHR 0xC3, CHR 0xB1] @ ''os!''"

definition offline_tip_message :: string where
  "offline_tip_message =
     [CHR 0xE2, CHR 0x9D, CHR 0x8C] @ '' SERVIDOR REMOTO NO DISPONIBLE''
       @ [CHR 0x0A, CHR 0x0A, CHR 0xF0, CHR 0x9F, CHR 0x94, CHR 0x8C]
       @ '' No se pudo conectar al servidor de consejos de sue'' @ [CHR 0xC3, CHR 0xB1] @ ''o.''
       @ [CHR 0x0A, CHR 0x0A, CHR 0xF0, CHR 0x9F, CHR 0x92, CHR 0xA1] @ '' Consejo offline:''
       @ [CHR 0x0A, CHR 0x22] @ ''Mant'' @ [CHR 0xC3, CHR 0xA9] @ ''n tu habitaci''
       @ [CHR 0xC3, CHR 0xB3] @ ''n fresca (18-20'' @ [CHR 0xC2, CHR 0xB0]
       @ ''C), oscura y silenciosa para un sue'' @ [CHR 0xC3, CHR 0xB1] @ ''o ''
       @ [CHR 0xC3, CHR 0xB3] @ ''ptimo.''
       @ [CHR 0x22, CHR 0x0A, CHR 0x0A, CHR 0xF0, CHR 0x9F, CHR 0x8C, CHR 0x99]
       @ '' El servidor estar'' @ [CHR 0xC3, CHR 0xA1] @ '' disponible pronto.''"

definition offline_search_message :: string where
  "offline_search_message =
     [CHR 0xE2, CHR 0x9D, CHR 0x8C] @ '' SERVIDOR REMOTO NO DISPONIBLE''
       @ [CHR 0x0A, CHR 0x0A, CHR 0xF0, CHR 0x9F, CHR 0x94, CHR 0x8C]
       @ '' No se puede realizar la b'' @ [CHR 0xC3, CHR 0xBA] @ ''squeda en este momento.''
       @ [CHR 0x0A, CHR 0x0A, CHR 0xE2, CHR 0x8F, CHR 0xB3]
       @ '' Intenta nuevamente cuando el servidor est'' @ [CHR 0xC3, CHR 0xA9] @ '' disponible.''"

definition offline_wisdom_message :: string where
  "offline_wisdom_message =
     [CHR 0xE2, CHR 0x9D, CHR 0x8C] @ '' SERVIDOR REMOTO NO DISPONIBLE''
       @ [CHR 0x0A, CHR 0x0A, CHR 0xF0, CHR 0x9F, CHR 0x94, CHR 0x8C]
       @ '' No se pudo obtener la sabidur'' @ [CHR 0xC3, CHR 0xAD] @ ''a diaria.''
       @ [CHR 0x0A, CHR 0x0A, CHR 0xF0, CHR 0x9F, CHR 0x92, CHR 0xAD] @ '' Reflexi''
       @ [CHR 0xC3, CHR 0xB3] @ ''n offline:'' @ [CHR 0x0A, CHR 0x22]
       @ ''Cada noche es una oportunidad de descanso y renovaci'' @ [CHR 0xC3, CHR 0xB3]
       @ ''n. Aprovecha este momento para cuidar tu bienestar.''
       @ [CHR 0x22, CHR 0x0A, CHR 0x0A, CHR 0xF0, CHR 0x9F, CHR 0x8C, CHR 0x99]
       @ '' El servidor estar'' @ [CHR 0xC3, CHR 0xA1] @ '' disponible pronto.''"

definition offline_default_message :: string where
  "offline_default_message =
     [CHR 0xE2, CHR 0x9D, CHR 0x8C] @ '' Servidor remoto no disponible''"

definition get_offline_response :: "string \<Rightarrow> pydict" where
  "get_offline_response response_type =
     (if response_type = ''quote'' then
        [(''success'', JBool False), (''message'', JStr offline_quote_message),
         (''source'', JStr ''offline_fallback'')]
      else if response_type = ''tip'' then
        [(''success'', JBool False), (''message'', JStr offline_tip_message),
         (''source'', JStr ''offline_fallback'')]
      else if response_type = ''search'' then
        [(''success'', JBool False), (''message'', JStr offline_search_message),
         (''source'', JStr ''offline_fallback'')]
      else if response_type = ''wisdom'' then
        [(''success'', JBool False), (''message'', JStr offline_wisdom_message),
         (''source'', JStr ''offline_fallback'')]
      else
        [(''success'', JBool False), (''message'', JStr offline_default_message),
         (''source'', JStr ''offline_fallback'')])"

subsection \<open>get\_inspirational\_quote\<close>

definition quote_cache_key :: "string option \<Rightarrow> string option \<Rightarrow> bool \<Rightarrow> string" where
  "quote_cache_key category' mood' time_based =
     ''quote_'' @ str_optional category' @ ''_'' @ str_optional mood' @ ''_'' @ str_bool time_based"

definition quote_request ::
  "RemoteSleepQuotesClient \<Rightarrow> string option \<Rightarrow> string option \<Rightarrow> bool \<Rightarrow> request" where
  "quote_request self category' mood' time_based =
     \<lparr>req_url = server_url self @ ''/api/quote'',
      req_params =
        (case category' of
           None \<Rightarrow> []
         | Some c \<Rightarrow> if c \<noteq> [] then [(''category'', JStr c)] else [])
        @ (case mood' of
             None \<Rightarrow> []
           | Some m \<Rightarrow> if m \<noteq> [] then [(''mood'', JStr m)] else [])
        @ (if time_based then [(''time_based'', JStr ''true'')] else [])\<rparr>"

definition quote_message ::
  "runtime \<Rightarrow> json \<Rightarrow> json \<Rightarrow> string \<Rightarrow> string \<Rightarrow> string \<Rightarrow> string" where
  "quote_message env quote' author' category' mood' time_of_day' =
     [CHR 0xF0, CHR 0x9F, CHR 0x8C, CHR 0x99] @ '' CITA INSPIRACIONAL PARA DORMIR ''
       @ [CHR 0xF0, CHR 0x9F, CHR 0x8C, CHR 0x99, CHR 0x0A, CHR 0x0A, CHR 0x22]
     @ format_value env quote'
     @ [CHR 0x22, CHR 0x0A, CHR 0x0A, CHR 0xE2, CHR 0x80, CHR 0x94] @ '' ''
     @ format_value env author'
     @ [CHR 0x0A, CHR 0x0A, CHR 0xF0, CHR 0x9F, CHR 0x93, CHR 0x85] @ '' Hora: ''
     @ strftime_HM (now_time env)
     @ [CHR 0x0A, CHR 0xF0, CHR 0x9F, CHR 0x8F, CHR 0xB7, CHR 0xEF, CHR 0xB8, CHR 0x8F]
       @ ''  Categor'' @ [CHR 0xC3, CHR 0xAD] @ ''a: ''
     @ title_of env (replace_underscores category')
     @ [CHR 0x0A, CHR 0xF0, CHR 0x9F, CHR 0x92, CHR 0xAD] @ '' Estado: ''
     @ title_of env mood'
     @ [CHR 0x0A, CHR 0xE2, CHR 0x8F, CHR 0xB0] @ '' Momento: ''
     @ title_of env (replace_underscores time_of_day')
     @ [CHR 0x0A, CHR 0x0A, CHR 0xE2, CHR 0x9C, CHR 0xA8] @ '' Que tengas dulces sue''
       @ [CHR 0xC3, CHR 0xB1] @ ''os '' @ [CHR 0xE2, CHR 0x9C, CHR 0xA8]"

text \<open>The body of the \<open>status == 200\<close> branch up to the cache write; \<open>None\<close> when it raises.\<close>

definition quote_response :: "runtime \<Rightarrow> json option \<Rightarrow> pydict option" where
  "quote_response env body = do {
     data \<leftarrow> body;
     quote_data \<leftarrow> subscript data ''quote'';
     quote' \<leftarrow> subscript quote_data ''quote'';
     author' \<leftarrow> subscript quote_data ''author'';
     category' \<leftarrow> subscript quote_data ''category'' \<bind> as_str;
     mood' \<leftarrow> subscript quote_data ''mood'' \<bind> as_str;
     time_of_day' \<leftarrow> subscript quote_data ''time_of_day'' \<bind> as_str;
     timestamp \<leftarrow> subscript data ''timestamp'';
     Some [(''success'', JBool True),
           (''message'', JStr (quote_message env quote' author' category' mood' time_of_day')),
           (''quote_data'', quote_data),
           (''source'', JStr ''remote_server''),
           (''timestamp'', timestamp)]
   }"

text \<open>
  Every query method returns the result, the client after the call and the requests the
  call has passed to \<open>session.get\<close>.
\<close>

definition get_inspirational_quote ::
  "runtime \<Rightarrow> string option \<Rightarrow> string option \<Rightarrow> bool \<Rightarrow> RemoteSleepQuotesClient
     \<Rightarrow> pydict \<times> RemoteSleepQuotesClient \<times> request list" where
  "get_inspirational_quote env category' mood' time_based self =
     (if \<not> is_connected self then (get_offline_response ''quote'', self, [])
      else
        let cache_key = quote_cache_key category' mood' time_based;
            cached_data = get_cache self (now_valid env) cache_key;
            request = quote_request self category' mood' time_based;
            fetched =
              (case net env request of
                 Raised \<Rightarrow> (get_offline_response ''quote'', self, [request])
               | Response status body \<Rightarrow>
                   if status = 200 then
                     (case quote_response env body of
                        None \<Rightarrow> (get_offline_response ''quote'', self, [request])
                      | Some formatted_response \<Rightarrow>
                          (formatted_response,
                           set_cache self (now_store env) cache_key formatted_response,
                           [request]))
                   else (get_offline_response ''quote'', self, [request]))
        in case cached_data of
             None \<Rightarrow> fetched
           | Some d \<Rightarrow> if d \<noteq> [] then (d, self, []) else fetched)"

subsection \<open>get\_sleep\_hygiene\_tip\<close>

definition tip_request :: "RemoteSleepQuotesClient \<Rightarrow> request" where
  "tip_request self = \<lparr>req_url = server_url self @ ''/api/tip'', req_params = []\<rparr>"

definition tip_message :: "runtime \<Rightarrow> json \<Rightarrow> json \<Rightarrow> string" where
  "tip_message env quote' author' =
     [CHR 0xF0, CHR 0x9F, CHR 0x92, CHR 0xA1] @ '' CONSEJO DE HIGIENE DEL SUE''
       @ [CHR 0xC3, CHR 0x91] @ ''O ''
       @ [CHR 0xF0, CHR 0x9F, CHR 0x92, CHR 0xA1, CHR 0x0A, CHR 0x0A]
     @ format_value env quote'
     @ [CHR 0x0A, CHR 0x0A, CHR 0xE2, CHR 0x80, CHR 0x94] @ '' ''
     @ format_value env author'
     @ [CHR 0x0A, CHR 0x0A, CHR 0xF0, CHR 0x9F, CHR 0x8E, CHR 0xAF] @ '' Esta es tu recomendaci''
       @ [CHR 0xC3, CHR 0xB3] @ ''n personalizada para mejorar tu calidad de sue''
       @ [CHR 0xC3, CHR 0xB1] @ ''o.''
       @ [CHR 0x0A, CHR 0x0A, CHR 0xF0, CHR 0x9F, CHR 0x92, CHR 0xA4] @ '' Recuerda: Peque''
       @ [CHR 0xC3, CHR 0xB1] @ ''os cambios en tus h'' @ [CHR 0xC3, CHR 0xA1]
       @ ''bitos pueden generar grandes mejoras en tu descanso.''"

definition tip_response :: "runtime \<Rightarrow> json option \<Rightarrow> pydict option" where
  "tip_response env body = do {
     data \<leftarrow> body;
     tip_data \<leftarrow> subscript data ''tip'';
     quote' \<leftarrow> subscript tip_data ''quote'';
     author' \<leftarrow> subscript tip_data ''author'';
     timestamp \<leftarrow> subscript data ''timestamp'';
     Some [(''success'', JBool True),
           (''message'', JStr (tip_message env quote' author')),
           (''tip_data'', tip_data),
           (''source'', JStr ''remote_server''),
           (''timestamp'', timestamp)]
   }"

definition get_sleep_hygiene_tip ::
  "runtime \<Rightarrow> RemoteSleepQuotesClient \<Rightarrow> pydict \<times> RemoteSleepQuotesClient \<times> request list" where
  "get_sleep_hygiene_tip env self =
     (if \<not> is_connected self then (get_offline_response ''tip'', self, [])
      else
        let cache_key = ''sleep_tip'';
            cached_data = get_cache self (now_valid env) cache_key;
            request = tip_request self;
            fetched =
              (case net env request of
                 Raised \<Rightarrow> (get_offline_response ''tip'', self, [request])
               | Response status body \<Rightarrow>
                   if status = 200 then
                     (case tip_response env body of
                        None \<Rightarrow> (get_offline_response ''tip'', self, [request])
                      | Some formatted_response \<Rightarrow>
                          (formatted_response,
                           set_cache self (now_store env) cache_key formatted_response,
                           [request]))
                   else (get_offline_response ''tip'', self, [request]))
        in case cached_data of
             None \<Rightarrow> fetched
           | Some d \<Rightarrow> if d \<noteq> [] then (d, self, []) else fetched)"

subsection \<open>search\_quotes\<close>

definition search_request :: "RemoteSleepQuotesClient \<Rightarrow> string \<Rightarrow> int \<Rightarrow> request" where
  "search_request self query limit =
     \<lparr>req_url = server_url self @ ''/api/search/'' @ query,
      req_params = [(''limit'', JNum (real_of_int limit))]\<rparr>"

definition no_results_message :: "string \<Rightarrow> string" where
  "no_results_message query =
     [CHR 0xF0, CHR 0x9F, CHR 0x94, CHR 0x8D] @ '' B'' @ [CHR 0xC3, CHR 0x9A] @ ''SQUEDA: ''
       @ [CHR 0x22]
     @ query
     @ [CHR 0x22, CHR 0x0A, CHR 0x0A, CHR 0xE2, CHR 0x9D, CHR 0x8C]
       @ '' No se encontraron citas que coincidan con tu b'' @ [CHR 0xC3, CHR 0xBA] @ ''squeda.''
       @ [CHR 0x0A, CHR 0x0A, CHR 0xF0, CHR 0x9F, CHR 0x92, CHR 0xA1] @ '' Intenta con t''
       @ [CHR 0xC3, CHR 0xA9] @ ''rminos como: sue'' @ [CHR 0xC3, CHR 0xB1]
       @ ''o, descanso, noche, relajaci'' @ [CHR 0xC3, CHR 0xB3] @ ''n, paz''"

definition results_header :: "string \<Rightarrow> nat \<Rightarrow> string" where
  "results_header query n =
     [CHR 0xF0, CHR 0x9F, CHR 0x94, CHR 0x8D] @ '' RESULTADOS DE B'' @ [CHR 0xC3, CHR 0x9A]
       @ ''SQUEDA: '' @ [CHR 0x22]
     @ query
     @ [CHR 0x22, CHR 0x0A, CHR 0x0A, CHR 0xF0, CHR 0x9F, CHR 0x93, CHR 0x9A] @ '' Encontr''
       @ [CHR 0xC3, CHR 0xA9] @ '' ''
     @ str_nat n
     @ '' cita(s) para ti:'' @ [CHR 0x0A, CHR 0x0A]"

definition result_item :: "runtime \<Rightarrow> nat \<Rightarrow> json \<Rightarrow> json \<Rightarrow> string \<Rightarrow> string" where
  "result_item env i quote' author' category' =
     [CHR 0x0A]
     @ str_nat i
     @ ''. '' @ [CHR 0x22]
     @ format_value env quote'
     @ [CHR 0x22, CHR 0x0A] @ ''   '' @ [CHR 0xE2, CHR 0x80, CHR 0x94] @ '' ''
     @ format_value env author'
     @ '' | ''
     @ title_of env (replace_underscores category')
     @ [CHR 0x0A, CHR 0x0A]"

text \<open>The loop over \<open>enumerate(data['results'], 1)\<close>, appending to \<open>message\<close>.\<close>

fun results_loop :: "runtime \<Rightarrow> nat \<Rightarrow> json list \<Rightarrow> string \<Rightarrow> string option" where
  "results_loop env i [] message = Some message"
| "results_loop env i (q # rest) message = do {
     quote' \<leftarrow> subscript q ''quote'';
     author' \<leftarrow> subscript q ''author'';
     category' \<leftarrow> subscript q ''category'' \<bind> as_str;
     results_loop env (Suc i) rest (message @ result_item env i quote' author' category')
   }"

text \<open>
  The message of a search. A result value that is true but not a list raises: \<open>len\<close> of a
  number or of \<open>True\<close> is a TypeError, and the elements of a string or of a dict are
  strings, whose subscript \<open>['quote']\<close> is a TypeError.
\<close>

definition search_message :: "runtime \<Rightarrow> string \<Rightarrow> json \<Rightarrow> string option" where
  "search_message env query results =
     (if \<not> py_bool results then Some (no_results_message query)
      else case results of
             JArr quotes' \<Rightarrow> results_loop env 1 quotes' (results_header query (length quotes'))
           | _ \<Rightarrow> None)"

definition search_response :: "runtime \<Rightarrow> string \<Rightarrow> json option \<Rightarrow> pydict option" where
  "search_response env query body = do {
     data \<leftarrow> body;
     results \<leftarrow> subscript data ''results'';
     message \<leftarrow> search_message env query results;
     total_found \<leftarrow> subscript data ''total_found'';
     timestamp \<leftarrow> subscript data ''timestamp'';
     Some [(''success'', JBool True),
           (''message'', JStr message),
           (''results'', results),
           (''total_found'', total_found),
           (''source'', JStr ''remote_server''),
           (''timestamp'', timestamp)]
   }"

definition search_quotes ::
  "runtime \<Rightarrow> string \<Rightarrow> int \<Rightarrow> RemoteSleepQuotesClient
     \<Rightarrow> pydict \<times> RemoteSleepQuotesClient \<times> request list" where
  "search_quotes env query limit self =
     (if \<not> is_connected self then (get_offline_response ''search'', self, [])
      else
        let request = search_request self query limit
        in case net env request of
             Raised \<Rightarrow> (get_offline_response ''search'', self, [request])
           | Response status body \<Rightarrow>
               if status = 200 then
                 (case search_response env query body of
                    None \<Rightarrow> (get_offline_response ''search'', self, [request])
                  | Some result \<Rightarrow> (result, self, [request]))
               else (get_offline_response ''search'', self, [request]))"

subsection \<open>get\_daily\_wisdom\<close>

definition wisdom_cache_key :: "datetime \<Rightarrow> bool \<Rightarrow> string" where
  "wisdom_cache_key now include_tip =
     ''daily_wisdom_'' @ strftime_Ymd now @ ''_'' @ str_bool include_tip"

definition wisdom_request :: "RemoteSleepQuotesClient \<Rightarrow> bool \<Rightarrow> request" where
  "wisdom_request self include_tip =
     \<lparr>req_url = server_url self @ ''/api/wisdom'',
      req_params = [(''include_tip'', JStr (if include_tip then ''true'' else ''false''))]\<rparr>"

definition wisdom_head :: "runtime \<Rightarrow> json \<Rightarrow> json \<Rightarrow> string" where
  "wisdom_head env quote' author' =
     [CHR 0xF0, CHR 0x9F, CHR 0x93, CHR 0x96] @ '' SABIDUR'' @ [CHR 0xC3, CHR 0x8D]
       @ ''A DIARIA DEL SUE'' @ [CHR 0xC3, CHR 0x91] @ ''O ''
       @ [CHR 0xF0, CHR 0x9F, CHR 0x93, CHR 0x96, CHR 0x0A, CHR 0x0A, CHR 0xF0, CHR 0x9F, CHR 0x93, CHR 0x85]
       @ '' ''
     @ strftime_AdB (now_date env)
     @ '' '' @ [CHR 0xE2, CHR 0x80, CHR 0xA2] @ '' ''
     @ strftime_HM (now_time env)
     @ [CHR 0x0A, CHR 0x0A, CHR 0xF0, CHR 0x9F, CHR 0x8C, CHR 0x9F] @ '' CITA DEL D''
       @ [CHR 0xC3, CHR 0x8D] @ ''A:'' @ [CHR 0x0A, CHR 0x22]
     @ format_value env quote'
     @ [CHR 0x22, CHR 0x0A, CHR 0xE2, CHR 0x80, CHR 0x94] @ '' ''
     @ format_value env author'
     @ [CHR 0x0A, CHR 0x0A]"

definition wisdom_tip :: "runtime \<Rightarrow> json \<Rightarrow> string" where
  "wisdom_tip env quote' =
     [CHR 0xF0, CHR 0x9F, CHR 0x92, CHR 0xA1] @ '' CONSEJO PR'' @ [CHR 0xC3, CHR 0x81]
       @ ''CTICO:'' @ [CHR 0x0A]
     @ format_value env quote'
     @ [CHR 0x0A, CHR 0x0A, CHR 0xF0, CHR 0x9F, CHR 0x8E, CHR 0xAF]
       @ '' Aplica este consejo hoy y observa c'' @ [CHR 0xC3, CHR 0xB3]
       @ ''mo mejora tu descanso nocturno.'' @ [CHR 0x0A, CHR 0x0A]"

definition wisdom_foot :: string where
  "wisdom_foot =
     [CHR 0xF0, CHR 0x9F, CHR 0x8C, CHR 0x99] @ '' Que tengas un d'' @ [CHR 0xC3, CHR 0xAD]
       @ ''a productivo y una noche de sue'' @ [CHR 0xC3, CHR 0xB1] @ ''o reparador. ''
       @ [CHR 0xF0, CHR 0x9F, CHR 0x8C, CHR 0x99]"

definition wisdom_response :: "runtime \<Rightarrow> bool \<Rightarrow> json option \<Rightarrow> pydict option" where
  "wisdom_response env include_tip body = do {
     data \<leftarrow> body;
     quote_data \<leftarrow> subscript data ''daily_quote'';
     quote' \<leftarrow> subscript quote_data ''quote'';
     author' \<leftarrow> subscript quote_data ''author'';
     message \<leftarrow>
       (if include_tip \<and> has_key data ''daily_tip'' then do {
          tip_data \<leftarrow> subscript data ''daily_tip'';
          tip_quote \<leftarrow> subscript tip_data ''quote'';
          Some (wisdom_head env quote' author' @ wisdom_tip env tip_quote)
        } else Some (wisdom_head env quote' author'));
     daily_tip \<leftarrow> dict_get data ''daily_tip'';
     timestamp \<leftarrow> subscript data ''timestamp'';
     Some [(''success'', JBool True),
           (''message'', JStr (message @ wisdom_foot)),
           (''daily_quote'', quote_data),
           (''daily_tip'', daily_tip),
           (''source'', JStr ''remote_server''),
           (''timestamp'', timestamp)]
   }"

definition get_daily_wisdom ::
  "runtime \<Rightarrow> bool \<Rightarrow> RemoteSleepQuotesClient
     \<Rightarrow> pydict \<times> RemoteSleepQuotesClient \<times> request list" where
  "get_daily_wisdom env include_tip self =
     (if \<not> is_connected self then (get_offline_response ''wisdom'', self, [])
      else
        let cache_key = wisdom_cache_key (now_key env) include_tip;
            cached_data = get_cache self (now_valid env) cache_key;
            request = wisdom_request self include_tip;
            fetched =
              (case net env request of
                 Raised \<Rightarrow> (get_offline_response ''wisdom'', self, [request])
               | Response status body \<Rightarrow>
                   if status = 200 then
                     (case wisdom_response env include_tip body of
                        None \<Rightarrow> (get_offline_response ''wisdom'', self, [request])
                      | Some formatted_response \<Rightarrow>
                          (formatted_response,
                           (set_cache (self\<lparr>cache_ttl := 3600\<rparr>) (now_store env) cache_key
                              formatted_response)\<lparr>cache_ttl := 300\<rparr>,
                           [request]))
                   else (get_offline_response ''wisdom'', self, [request]))
        in case cached_data of
             None \<Rightarrow> fetched
           | Some d \<Rightarrow> if d \<noteq> [] then (d, self, []) else fetched)"

section \<open>Vocabulary of the statements\<close>

subsection \<open>Provider\<close>


text \<open>The partition of the day by the hour, written from the specification.\<close>

definition time_slot :: "int \<Rightarrow> string" where
  "time_slot h =
     (if 6 \<le> h \<and> h < 18 then ''morning''
      else if 18 \<le> h \<and> h < 22 then ''evening''
      else ''night'')"

subsection \<open>The four query kinds\<close>

text \<open>
  A query is one call of one of the four query methods with its arguments; \<open>call\<close> runs
  it. The other functions name, for each kind, the parts of its method: the argument it
  passes to \<open>get_offline_response\<close>, its cache key (search has none), the request it
  sends and the formatting of a status-200 answer.
\<close>

datatype query =
    Quote "string option" "string option" bool
  | Tip
  | Search string int
  | Wisdom bool

fun call ::
  "runtime \<Rightarrow> query \<Rightarrow> RemoteSleepQuotesClient
     \<Rightarrow> pydict \<times> RemoteSleepQuotesClient \<times> request list" where
  "call env (Quote category' mood' time_based) self =
     get_inspirational_quote env category' mood' time_based self"
| "call env Tip self = get_sleep_hygiene_tip env self"
| "call env (Search query limit) self = search_quotes env query limit self"
| "call env (Wisdom include_tip) self = get_daily_wisdom env include_tip self"

fun response_type :: "query \<Rightarrow> string" where
  "response_type (Quote category' mood' time_based) = ''quote''"
| "response_type Tip = ''tip''"
| "response_type (Search query limit) = ''search''"
| "response_type (Wisdom include_tip) = ''wisdom''"

text \<open>The text of the offline payload of each kind.\<close>

fun offline_message :: "query \<Rightarrow> string" where
  "offline_message (Quote category' mood' time_based) = offline_quote_message"
| "offline_message Tip = offline_tip_message"
| "offline_message (Search query limit) = offline_search_message"
| "offline_message (Wisdom include_tip) = offline_wisdom_message"

fun cache_key_of :: "runtime \<Rightarrow> query \<Rightarrow> string option" where
  "cache_key_of env (Quote category' mood' time_based) =
     Some (quote_cache_key category' mood' time_based)"
| "cache_key_of env Tip = Some ''sleep_tip''"
| "cache_key_of env (Search query limit) = None"
| "cache_key_of env (Wisdom include_tip) = Some (wisdom_cache_key (now_key env) include_tip)"

fun request_of :: "RemoteSleepQuotesClient \<Rightarrow> query \<Rightarrow> request" where
  "request_of self (Quote category' mood' time_based) =
     quote_request self category' mood' time_based"
| "request_of self Tip = tip_request self"
| "request_of self (Search query limit) = search_request self query limit"
| "request_of self (Wisdom include_tip) = wisdom_request self include_tip"

fun response_of :: "runtime \<Rightarrow> query \<Rightarrow> json option \<Rightarrow> pydict option" where
  "response_of env (Quote category' mood' time_based) body = quote_response env body"
| "response_of env Tip body = tip_response env body"
| "response_of env (Search query limit) body = search_response env query body"
| "response_of env (Wisdom include_tip) body = wisdom_response env include_tip body"

text \<open>The lookup of the call finds nothing it returns: no valid entry, or an empty dict.\<close>

definition cache_miss :: "runtime \<Rightarrow> query \<Rightarrow> RemoteSleepQuotesClient \<Rightarrow> bool" where
  "cache_miss env q self =
     (case cache_key_of env q of
        None \<Rightarrow> True
      | Some k \<Rightarrow> (case get_cache self (now_valid env) k of None \<Rightarrow> True | Some d \<Rightarrow> d = []))"

text \<open>
  A failed request: a transport exception, a status other than 200, or a payload on which
  the method's formatting raises (invalid JSON, a missing field, a field of the wrong type).
\<close>

definition request_failed :: "runtime \<Rightarrow> query \<Rightarrow> http_result \<Rightarrow> bool" where
  "request_failed env q response =
     (case response of
        Raised \<Rightarrow> True
      | Response status body \<Rightarrow> status \<noteq> 200 \<or> response_of env q body = None)"

text \<open>The client after the cache write of a successful call.\<close>

fun stored ::
  "runtime \<Rightarrow> query \<Rightarrow> RemoteSleepQuotesClient \<Rightarrow> pydict \<Rightarrow> RemoteSleepQuotesClient" where
  "stored env (Search query limit) self r = self"
| "stored env (Wisdom include_tip) self r =
     self\<lparr>cache := (cache self)(wisdom_cache_key (now_key env) include_tip \<mapsto>
                      \<lparr>entry_data = r, entry_timestamp = to_timestamp (now_store env)\<rparr>),
          cache_ttl := 300\<rparr>"
| "stored env q self r =
     self\<lparr>cache := (cache self)(the (cache_key_of env q) \<mapsto>
                      \<lparr>entry_data = r, entry_timestamp = to_timestamp (now_store env)\<rparr>)\<rparr>"

subsection \<open>Results and reachable clients\<close>

text \<open>
  The invariant of a returned dict: it has \<open>success\<close>, \<open>message\<close> and \<open>source\<close>, and
  \<open>success\<close> is true exactly for the source \<open>remote_server\<close> and false exactly for
  \<open>offline_fallback\<close>.
\<close>

definition result_invariant :: "pydict \<Rightarrow> bool" where
  "result_invariant r =
     (case (map_of r ''success'', map_of r ''message'', map_of r ''source'') of
        (Some (JBool success), Some message, Some source) \<Rightarrow>
          (success \<longleftrightarrow> source = JStr ''remote_server'') \<and>
          (\<not> success \<longleftrightarrow> source = JStr ''offline_fallback'')
      | _ \<Rightarrow> False)"

definition cache_invariant :: "RemoteSleepQuotesClient \<Rightarrow> bool" where
  "cache_invariant self = (\<forall>k e. cache self k = Some e \<longrightarrow> result_invariant (entry_data e))"

text \<open>The clients the methods can produce: a new one, and one after a discovery or a query.\<close>

inductive reachable :: "RemoteSleepQuotesClient \<Rightarrow> bool" where
  created: "reachable (init server_url')"
| discovered:
    "reachable self \<Longrightarrow> test_connection probe self = (ok, self', sent) \<Longrightarrow> reachable self'"
| queried:
    "reachable self \<Longrightarrow> call env q self = (r, self', sent) \<Longrightarrow> reachable self'"

subsection \<open>Concrete inputs\<close>

definition example_now :: "real \<Rightarrow> datetime" where
  "example_now t =
     \<lparr>to_timestamp = t, strftime_HM = ''21:30'', strftime_Ymd = ''2025-03-14'',
      strftime_AdB = ''Friday, 14 de March''\<rparr>"

definition always :: "http_result \<Rightarrow> request \<Rightarrow> http_result" where
  "always response request = response"

text \<open>A call at time \<open>t\<close> of 14 March 2025 whose request the network answers by \<open>answer\<close>.\<close>

definition example_env :: "(request \<Rightarrow> http_result) \<Rightarrow> real \<Rightarrow> runtime" where
  "example_env answer t =
     \<lparr>net = answer, now_key = example_now t, now_valid = example_now t,
      now_date = example_now t, now_time = example_now t, now_store = example_now t,
      title_of = (\<lambda>s. s), repr_of = (\<lambda>v. ''?'')\<rparr>"

text \<open>A network in which exactly the listed servers answer the health probe as healthy.\<close>

definition healthy_only :: "string list \<Rightarrow> nat \<Rightarrow> request \<Rightarrow> http_result" where
  "healthy_only urls n request =
     (if request \<in> set (map health_request urls)
      then Response 200 (Some (JObj [(''status'', JStr ''healthy''), (''quotes_loaded'', JNum 15)]))
      else Raised)"

text \<open>The default client after a discovery whose first probe was healthy.\<close>

definition example_client :: RemoteSleepQuotesClient where
  "example_client = (init None)\<lparr>is_connected := True\<rparr>"

definition example_record :: json where
  "example_record =
     JObj [(''id'', JNum 13), (''quote'', JStr ''4-7-8''), (''author'', JStr ''Dr. Andrew Weil''),
           (''category'', JStr ''techniques''), (''time_of_day'', JStr ''night''),
           (''mood'', JStr ''calm'')]"

definition example_quote_body :: "json option" where
  "example_quote_body =
     Some (JObj [(''quote'', example_record), (''timestamp'', JStr ''2025-03-14T21:30:00'')])"

definition example_quote_result :: "runtime \<Rightarrow> pydict" where
  "example_quote_result env =
     [(''success'', JBool True),
      (''message'',
       JStr (quote_message env (JStr ''4-7-8'') (JStr ''Dr. Andrew Weil'')
               ''techniques'' ''calm'' ''night'')),
      (''quote_data'', example_record),
      (''source'', JStr ''remote_server''),
      (''timestamp'', JStr ''2025-03-14T21:30:00'')]"

definition example_wisdom_body :: "json option" where
  "example_wisdom_body =
     Some (JObj [(''daily_quote'', example_record), (''timestamp'', JStr ''2025-03-14T21:30:00''),
                 (''daily_tip'', example_record)])"

definition example_search_body :: "json list \<Rightarrow> json option" where
  "example_search_body results =
     Some (JObj [(''query'', JStr ''paz''), (''results'', JArr results),
                 (''total_found'', JNum (real (length results))),
                 (''timestamp'', JStr ''2025-03-14T21:30:00'')])"

section \<open>The provider's selection\<close>


lemma choice_mem: "seq \<noteq> [] \<Longrightarrow> \<exists>x. choice r seq = Some x \<and> x \<in> set seq"
  by (simp add: choice_def)



text \<open>
  C10. \<open>get_quote_by_time\<close> serves the hour \<open>h\<close> from the slot \<open>time_slot h\<close>: morning for
  \<open>6 \<le> h < 18\<close>, evening for \<open>18 \<le> h < 22\<close>, night otherwise. Whenever the database holds
  a quote of that slot, the quote returned is one of them.
\<close>

theorem get_quote_by_time_slot:
  assumes "\<exists>q \<in> set (quotes self). time_of_day q = time_slot h"
  shows "\<exists>q. get_quote_by_time self h r = Some q \<and> q \<in> set (quotes self) \<and>
              time_of_day q = time_slot h"
proof -
  let ?fs = "[(''time_of_day'', JStr (time_slot h))]"
  let ?slot = "[q \<leftarrow> quotes self. time_of_day q = time_slot h]"
  have by_slot: "get_quote_by_time self h r = get_random_quote self ?fs r"
    by (simp add: get_quote_by_time_def time_slot_def)
  have filtered: "filter_loop ?fs (quotes self) = ?slot"
    by (simp add: getattr_def)
  from assms have ne: "?slot \<noteq> []"
    by (auto simp: filter_empty_conv)
  have "get_random_quote self ?fs r = choice r ?slot"
    unfolding get_random_quote_def filtered using ne by (simp add: Let_def)
  with choice_mem [OF ne, of r] by_slot
  obtain q where "get_quote_by_time self h r = Some q" "q \<in> set ?slot"
    by auto
  then show ?thesis by auto
qed

theorem get_quote_by_time_slot_witness:
  "(\<exists>q \<in> set (quotes new_database). time_of_day q = time_slot 15) \<and>
   (\<exists>q. get_quote_by_time new_database 15 2 = Some q \<and> time_of_day q = ''morning'')"
proof -
  have h: "\<exists>q \<in> set (quotes new_database). time_of_day q = time_slot 15"
    by (simp add: new_database_def initialize_quotes_def time_slot_def)
  have "time_slot 15 = ''morning''" by (simp add: time_slot_def)
  with get_quote_by_time_slot [OF h, of 2] h show ?thesis by auto
qed

section \<open>The offline payloads\<close>

lemma offline_messages_distinct:
  "distinct [offline_quote_message, offline_tip_message, offline_search_message,
             offline_wisdom_message, offline_default_message]"
  by (simp add: offline_quote_message_def offline_tip_message_def offline_search_message_def
        offline_wisdom_message_def offline_default_message_def)

lemma offline_payload:
  "get_offline_response (response_type q) =
     [(''success'', JBool False), (''message'', JStr (offline_message q)),
      (''source'', JStr ''offline_fallback'')]"
  by (cases q) (simp_all add: get_offline_response_def)

lemma offline_payload_kind_specific:
  assumes "response_type q \<noteq> response_type q'"
  shows "get_offline_response (response_type q) \<noteq> get_offline_response (response_type q')"
  using assms offline_messages_distinct
  unfolding offline_payload by (cases q; cases q') auto

section \<open>What a call does\<close>

lemma call_offline:
  "\<not> is_connected self \<Longrightarrow> call env q self = (get_offline_response (response_type q), self, [])"
  by (cases q)
     (simp_all add: get_inspirational_quote_def get_sleep_hygiene_tip_def search_quotes_def
        get_daily_wisdom_def)

lemma call_hit:
  assumes "is_connected self" "cache_key_of env q = Some k"
    and "get_cache self (now_valid env) k = Some d" "d \<noteq> []"
  shows "call env q self = (d, self, [])"
  using assms
  by (cases q)
     (simp_all add: get_inspirational_quote_def get_sleep_hygiene_tip_def
        get_daily_wisdom_def Let_def)

lemma call_fetch:
  assumes "is_connected self" "cache_miss env q self"
  shows "call env q self =
     (case net env (request_of self q) of
        Raised \<Rightarrow> (get_offline_response (response_type q), self, [request_of self q])
      | Response status body \<Rightarrow>
          if status = 200 then
            (case response_of env q body of
               None \<Rightarrow> (get_offline_response (response_type q), self, [request_of self q])
             | Some r \<Rightarrow> (r, stored env q self r, [request_of self q]))
          else (get_offline_response (response_type q), self, [request_of self q]))"
  using assms
  by (cases q)
     (auto simp add: get_inspirational_quote_def get_sleep_hygiene_tip_def search_quotes_def
        get_daily_wisdom_def Let_def cache_miss_def set_cache_def
        split: option.splits http_result.splits)

lemma call_fetch_ok:
  assumes "is_connected self" "cache_miss env q self"
    and "net env (request_of self q) = Response 200 body"
    and "response_of env q body = Some r"
  shows "call env q self = (r, stored env q self r, [request_of self q])"
  using call_fetch [OF assms(1,2)] assms(3,4) by simp

lemma call_fetch_failed:
  assumes "is_connected self" "cache_miss env q self"
    and "request_failed env q (net env (request_of self q))"
  shows "call env q self = (get_offline_response (response_type q), self, [request_of self q])"
  using call_fetch [OF assms(1,2)] assms(3)
  by (auto simp: request_failed_def split: http_result.splits option.splits)

text \<open>Two payloads no kind can format: a body that is not JSON, and an empty object.\<close>

lemma unparsed_body_fails: "response_of env q None = None"
  by (cases q)
     (simp_all add: quote_response_def tip_response_def search_response_def wisdom_response_def)

lemma empty_object_fails: "response_of env q (Some (JObj [])) = None"
  by (cases q)
     (simp_all add: quote_response_def tip_response_def search_response_def wisdom_response_def)

lemma response_of_nonempty: "response_of env q body = Some r \<Longrightarrow> r \<noteq> []"
  by (cases q)
     (auto simp: quote_response_def tip_response_def search_response_def wisdom_response_def
        split: Option.bind_splits)

lemma stored_cache:
  "cache_key_of env q = Some k \<Longrightarrow>
   cache (stored env q self r) =
     (cache self)(k \<mapsto> \<lparr>entry_data = r, entry_timestamp = to_timestamp (now_store env)\<rparr>)"
  by (cases q) auto

lemma stored_no_key: "cache_key_of env q = None \<Longrightarrow> stored env q self r = self"
  by (cases q) auto

lemma is_connected_stored: "is_connected (stored env q self r) = is_connected self"
  by (cases q) auto

lemma server_url_stored: "server_url (stored env q self r) = server_url self"
  by (cases q) auto

lemma cache_ttl_stored:
  "cache_ttl (stored env q self r) = (case q of Wisdom include_tip \<Rightarrow> 300 | _ \<Rightarrow> cache_ttl self)"
  by (cases q) auto

lemma stored_hit:
  assumes "cache_key_of env q = Some k"
    and "to_timestamp now - to_timestamp (now_store env) < cache_ttl (stored env q self r)"
  shows "get_cache (stored env q self r) now k = Some r"
  using assms by (simp add: stored_cache get_cache_def is_cache_valid_def)

lemma stored_expired:
  assumes "cache_key_of env q = Some k"
    and "\<not> to_timestamp now - to_timestamp (now_store env) < cache_ttl (stored env q self r)"
  shows "get_cache (stored env q self r) now k = None"
  using assms by (simp add: stored_cache get_cache_def is_cache_valid_def)

text \<open>The three ways a call ends.\<close>

lemma call_cases:
  assumes "call env q self = (r, self', sent)"
  obtains (offline) "r = get_offline_response (response_type q)" "self' = self"
    | (hit) k e where "cache self k = Some e" "r = entry_data e" "self' = self"
    | (fetched) body where "response_of env q body = Some r" "self' = stored env q self r"
proof (cases "is_connected self")
  case False
  with call_offline [OF False, of env q] assms offline show ?thesis by simp
next
  case conn: True
  show ?thesis
  proof (cases "cache_miss env q self")
    case True
    from call_fetch [OF conn True] assms offline fetched show ?thesis
      by (auto split: http_result.splits if_splits option.splits)
  next
    case False
    then obtain k d where k: "cache_key_of env q = Some k"
      and d: "get_cache self (now_valid env) k = Some d" "d \<noteq> []"
      by (auto simp: cache_miss_def split: option.splits)
    from d(1) obtain e where "cache self k = Some e" "d = entry_data e"
      by (auto simp: get_cache_def split: if_splits)
    with call_hit [OF conn k d] assms hit show ?thesis by simp
  qed
qed

section \<open>The discovery loop\<close>

lemma test_connection_loop_first_healthy:
  assumes "i < length urls"
    and "is_healthy (probe (n + i) (health_request (urls ! i)))"
    and "\<forall>j<i. \<not> is_healthy (probe (n + j) (health_request (urls ! j)))"
  shows "test_connection_loop probe self n urls =
           (True, self\<lparr>server_url := urls ! i, is_connected := True\<rparr>,
            map health_request (take (Suc i) urls))"
  using assms
proof (induction urls arbitrary: i n)
  case Nil
  then show ?case by simp
next
  case (Cons url urls)
  show ?case
  proof (cases i)
    case 0
    with Cons.prems show ?thesis by simp
  next
    case (Suc i')
    from Cons.prems(3) Suc have first: "\<not> is_healthy (probe n (health_request url))"
      by (metis add.right_neutral nth_Cons_0 zero_less_Suc)
    have a: "i' < length urls" using Cons.prems(1) Suc by simp
    have b: "is_healthy (probe (Suc n + i') (health_request (urls ! i')))"
      using Cons.prems(2) Suc by simp
    have c: "\<forall>j<i'. \<not> is_healthy (probe (Suc n + j) (health_request (urls ! j)))"
    proof (intro allI impI)
      fix j assume "j < i'"
      then have "Suc j < i" using Suc by simp
      with Cons.prems(3)
      have "\<not> is_healthy (probe (n + Suc j) (health_request ((url # urls) ! Suc j)))"
        by blast
      then show "\<not> is_healthy (probe (Suc n + j) (health_request (urls ! j)))" by simp
    qed
    from Cons.IH [OF a b c] first Suc show ?thesis by simp
  qed
qed

lemma test_connection_loop_none_healthy:
  assumes "\<forall>j<length urls. \<not> is_healthy (probe (n + j) (health_request (urls ! j)))"
  shows "test_connection_loop probe self n urls =
           (False, self\<lparr>is_connected := False\<rparr>, map health_request urls)"
  using assms
proof (induction urls arbitrary: n)
  case Nil
  then show ?case by simp
next
  case (Cons url urls)
  from Cons.prems have first: "\<not> is_healthy (probe n (health_request url))"
    by (metis add.right_neutral length_greater_0_conv list.distinct(1) nth_Cons_0)
  have c: "\<forall>j<length urls. \<not> is_healthy (probe (Suc n + j) (health_request (urls ! j)))"
  proof (intro allI impI)
    fix j assume "j < length urls"
    then have "Suc j < length (url # urls)" by simp
    with Cons.prems
    have "\<not> is_healthy (probe (n + Suc j) (health_request ((url # urls) ! Suc j)))"
      by blast
    then show "\<not> is_healthy (probe (Suc n + j) (health_request (urls ! j)))" by simp
  qed
  from Cons.IH [OF c] first show ?case by simp
qed

lemma test_connection_loop_cache:
  "test_connection_loop probe self n urls = (ok, self', sent) \<Longrightarrow> cache self' = cache self"
  by (induction urls arbitrary: n ok self' sent) (auto split: if_splits prod.splits)

section \<open>The invariant of the cache\<close>

lemma offline_invariant: "result_invariant (get_offline_response response_type')"
  by (simp add: result_invariant_def get_offline_response_def)

lemma response_of_invariant: "response_of env q body = Some r \<Longrightarrow> result_invariant r"
  by (cases q)
     (auto simp: quote_response_def tip_response_def search_response_def wisdom_response_def
        result_invariant_def split: Option.bind_splits)

lemma cache_invariant_stored:
  "cache_invariant self \<Longrightarrow> result_invariant r \<Longrightarrow> cache_invariant (stored env q self r)"
  by (cases q) (auto simp: cache_invariant_def)

lemma reachable_cache_invariant: "reachable self \<Longrightarrow> cache_invariant self"
proof (induction rule: reachable.induct)
  case (created server_url')
  show ?case by (simp add: cache_invariant_def init_def Let_def)
next
  case (discovered self probe ok self' sent)
  from discovered.hyps(2) have "cache self' = cache self"
    unfolding test_connection_def by (rule test_connection_loop_cache)
  with discovered.IH show ?case by (simp add: cache_invariant_def)
next
  case (queried self env q r self' sent)
  from queried.hyps(2) show ?case
  proof (cases rule: call_cases)
    case offline
    with queried.IH show ?thesis by simp
  next
    case (hit k e)
    with queried.IH show ?thesis by simp
  next
    case (fetched body)
    with queried.IH show ?thesis
      by (simp add: cache_invariant_stored response_of_invariant)
  qed
qed

section \<open>The concrete inputs\<close>

lemma example_facts:
  "is_connected example_client"
  "cache example_client = Map.empty"
  "cache_ttl example_client = 300"
  "server_url example_client = ''https://sleep-quotes-mcp.onrender.com''"
  "net (example_env answer t) = answer"
  "now_valid (example_env answer t) = example_now t"
  "now_store (example_env answer t) = example_now t"
  "now_key (example_env answer t) = example_now t"
  "to_timestamp (example_now t) = t"
  "cache_miss env q example_client"
  by (simp_all add: example_client_def init_def example_env_def example_now_def
        cache_miss_def get_cache_def is_cache_valid_def split: option.splits)

lemma always_answer: "net (example_env (always a) t) request = a"
  by (simp add: example_env_def always_def)

lemma example_quote_response:
  "quote_response env example_quote_body = Some (example_quote_result env)"
  by (simp add: quote_response_def example_quote_body_def example_record_def
        example_quote_result_def)

lemma example_candidates:
  "server_url (init None) # fallback_urls (init None) =
     [''https://sleep-quotes-mcp.onrender.com'',
      ''https://sleep-quotes-mcp.onrender.com'',
      ''https://sleep-quotes-mcp.railway.app'',
      ''https://sleep-quotes-mcp.fly.dev'',
      ''http://localhost:8000'']"
  by (simp add: init_def)

lemma example_client_discovered:
  "test_connection (healthy_only [''https://sleep-quotes-mcp.onrender.com'']) (init None) =
     (True, example_client, [health_request ''https://sleep-quotes-mcp.onrender.com''])"
  by (simp add: test_connection_def init_def healthy_only_def is_healthy_def example_client_def)

section \<open>Cached query dispatch\<close>

text \<open>
  C1, as the code has it. A connected client whose lookup finds nothing sends the request
  of the kind; when the answer has status 200 and the method can format its payload, the
  formatted result is returned. For the quote, tip and daily-wisdom kinds it is first stored
  under the kind's cache key with the reading of the clock at the write, so that every
  lookup of that key less than \<open>cache_ttl\<close> later finds it. A search has no cache key and
  leaves the client as it was.
\<close>

theorem fetched_result_is_cached:
  assumes "is_connected self"
    and "cache_miss env q self"
    and "net env (request_of self q) = Response 200 body"
    and "response_of env q body = Some r"
    and "call env q self = (r', self', sent)"
  shows "r' = r \<and> sent = [request_of self q] \<and>
         (case cache_key_of env q of
            None \<Rightarrow> self' = self
          | Some k \<Rightarrow>
              cache self' =
                (cache self)(k \<mapsto> \<lparr>entry_data = r,
                                      entry_timestamp = to_timestamp (now_store env)\<rparr>) \<and>
              (\<forall>now. to_timestamp now - to_timestamp (now_store env) < cache_ttl self' \<longrightarrow>
                     get_cache self' now k = Some r))"
proof -
  from call_fetch_ok [OF assms(1-4)] assms(5)
  have eq: "r' = r" "self' = stored env q self r" "sent = [request_of self q]"
    by simp_all
  show ?thesis
  proof (cases "cache_key_of env q")
    case None
    with eq show ?thesis by (simp add: stored_no_key)
  next
    case (Some k)
    with eq show ?thesis by (simp add: stored_cache stored_hit)
  qed
qed

theorem fetched_result_is_cached_witness:
  "is_connected example_client \<and>
   cache_miss (example_env (always (Response 200 example_quote_body)) 100)
     (Quote (Some ''techniques'') None False) example_client \<and>
   net (example_env (always (Response 200 example_quote_body)) 100)
     (request_of example_client (Quote (Some ''techniques'') None False)) =
     Response 200 example_quote_body \<and>
   response_of (example_env (always (Response 200 example_quote_body)) 100)
     (Quote (Some ''techniques'') None False) example_quote_body =
     Some (example_quote_result (example_env (always (Response 200 example_quote_body)) 100)) \<and>
   cache (fst (snd (call (example_env (always (Response 200 example_quote_body)) 100)
                      (Quote (Some ''techniques'') None False) example_client)))
     ''quote_techniques_None_False'' =
     Some \<lparr>entry_data =
             example_quote_result (example_env (always (Response 200 example_quote_body)) 100),
           entry_timestamp = 100\<rparr>"
proof -
  let ?env = "example_env (always (Response 200 example_quote_body)) 100"
  let ?q = "Quote (Some ''techniques'') None False"
  have h3: "net ?env (request_of example_client ?q) = Response 200 example_quote_body"
    by (simp add: always_answer)
  have h4: "response_of ?env ?q example_quote_body = Some (example_quote_result ?env)"
    by (simp add: example_quote_response)
  obtain r self' sent where c: "call ?env ?q example_client = (r, self', sent)"
    by (cases "call ?env ?q example_client")
  have k: "cache_key_of ?env ?q = Some ''quote_techniques_None_False''"
    by (simp add: quote_cache_key_def str_optional_def str_bool_def)
  have kk: "quote_cache_key (Some ''techniques'') None False = ''quote_techniques_None_False''"
    by (simp add: quote_cache_key_def str_optional_def str_bool_def)
  from fetched_result_is_cached [OF example_facts(1) example_facts(10) h3 h4 c]
  have "cache self' =
          (cache example_client)(''quote_techniques_None_False'' \<mapsto>
             \<lparr>entry_data = example_quote_result ?env,
              entry_timestamp = to_timestamp (now_store ?env)\<rparr>)"
    by (simp add: kk)
  then have "cache self' ''quote_techniques_None_False'' =
          Some \<lparr>entry_data = example_quote_result ?env, entry_timestamp = 100\<rparr>"
    by (simp add: example_facts)
  with c h3 h4 example_facts(1) example_facts(10) show ?thesis by simp
qed

text \<open>
  C1 as stated fails for the search kind: a connected client whose search is answered
  with status 200 returns the formatted success result and stores nothing, and the same
  search made again sends its request again.
\<close>

theorem search_not_cached_counterexample:
  "is_connected example_client \<and>
   net (example_env (always (Response 200 (example_search_body []))) 100)
     (request_of example_client (Search ''paz'' 5)) = Response 200 (example_search_body []) \<and>
   map_of (fst (call (example_env (always (Response 200 (example_search_body []))) 100)
                  (Search ''paz'' 5) example_client)) ''success'' = Some (JBool True) \<and>
   fst (snd (call (example_env (always (Response 200 (example_search_body []))) 100)
               (Search ''paz'' 5) example_client)) = example_client \<and>
   snd (snd (call (example_env (always (Response 200 (example_search_body []))) 100)
               (Search ''paz'' 5)
               (fst (snd (call (example_env (always (Response 200 (example_search_body []))) 100)
                            (Search ''paz'' 5) example_client)))))
     = [search_request example_client ''paz'' 5]"
proof -
  let ?env = "example_env (always (Response 200 (example_search_body []))) 100"
  let ?q = "Search ''paz'' 5"
  let ?r = "[(''success'', JBool True), (''message'', JStr (no_results_message ''paz'')),
             (''results'', JArr []), (''total_found'', JNum 0),
             (''source'', JStr ''remote_server''),
             (''timestamp'', JStr ''2025-03-14T21:30:00'')]"
  have n: "net ?env (request_of example_client ?q) = Response 200 (example_search_body [])"
    by (simp add: always_answer)
  have p: "response_of ?env ?q (example_search_body []) = Some ?r"
    by (simp add: search_response_def search_message_def example_search_body_def)
  have c: "call ?env ?q example_client = (?r, example_client, [search_request example_client ''paz'' 5])"
    using call_fetch_ok [OF example_facts(1) example_facts(10) n p] by simp
  have s1: "map_of (fst (call ?env ?q example_client)) ''success'' = Some (JBool True)"
    by (simp only: c fst_conv) simp
  have s2: "fst (snd (call ?env ?q example_client)) = example_client"
    by (simp only: c fst_conv snd_conv)
  have s3: "snd (snd (call ?env ?q example_client)) = [search_request example_client ''paz'' 5]"
    by (simp only: c snd_conv)
  show ?thesis
    unfolding s2 using example_facts(1) n s1 s3 by (intro conjI refl)
qed

text \<open>
  C4, as the code has it. For a kind with a cache key: when a first call has fetched its
  result from the server, a second call with the same cache key whose validity check reads
  the clock less than \<open>cache_ttl\<close> after the write returns the first result, sends nothing
  and leaves the client unchanged, whatever the network would answer.
\<close>

theorem cache_idempotence:
  assumes "is_connected self"
    and "cache_key_of env1 q = Some k"
    and "cache_miss env1 q self"
    and "net env1 (request_of self q) = Response 200 body"
    and "response_of env1 q body = Some r"
    and "call env1 q self = (r1, self1, sent1)"
    and "cache_key_of env2 q = Some k"
    and "to_timestamp (now_valid env2) - to_timestamp (now_store env1) < cache_ttl self1"
    and "call env2 q self1 = (r2, self2, sent2)"
  shows "r1 = r \<and> r2 = r \<and> sent2 = [] \<and> self2 = self1"
proof -
  from call_fetch_ok [OF assms(1,3,4,5)] assms(6)
  have eq: "r1 = r" "self1 = stored env1 q self r" by simp_all
  have conn: "is_connected self1" using assms(1) eq by (simp add: is_connected_stored)
  have "get_cache self1 (now_valid env2) k = Some r"
    using assms(8) unfolding eq(2) by (rule stored_hit [OF assms(2)])
  from call_hit [OF conn assms(7) this response_of_nonempty [OF assms(5)]]
  have hit: "call env2 q self1 = (r, self1, [])" .
  from hit assms(9) have "(r2, self2, sent2) = (r, self1, [])" by simp
  with eq(1) show ?thesis by simp
qed

theorem cache_idempotence_witness:
  "is_connected example_client \<and>
   cache_key_of (example_env (always (Response 200 example_quote_body)) 100)
     (Quote None (Some ''calm'') True) = Some ''quote_None_calm_True'' \<and>
   cache_miss (example_env (always (Response 200 example_quote_body)) 100)
     (Quote None (Some ''calm'') True) example_client \<and>
   net (example_env (always (Response 200 example_quote_body)) 100)
     (request_of example_client (Quote None (Some ''calm'') True)) =
     Response 200 example_quote_body \<and>
   response_of (example_env (always (Response 200 example_quote_body)) 100)
     (Quote None (Some ''calm'') True) example_quote_body =
     Some (example_quote_result (example_env (always (Response 200 example_quote_body)) 100)) \<and>
   cache_key_of (example_env (always Raised) 399) (Quote None (Some ''calm'') True)
     = Some ''quote_None_calm_True'' \<and>
   to_timestamp (now_valid (example_env (always Raised) 399))
     - to_timestamp (now_store (example_env (always (Response 200 example_quote_body)) 100))
     < cache_ttl (fst (snd (call (example_env (always (Response 200 example_quote_body)) 100)
                              (Quote None (Some ''calm'') True) example_client))) \<and>
   fst (call (example_env (always Raised) 399) (Quote None (Some ''calm'') True)
          (fst (snd (call (example_env (always (Response 200 example_quote_body)) 100)
                       (Quote None (Some ''calm'') True) example_client)))) =
     example_quote_result (example_env (always (Response 200 example_quote_body)) 100) \<and>
   snd (snd (call (example_env (always Raised) 399) (Quote None (Some ''calm'') True)
          (fst (snd (call (example_env (always (Response 200 example_quote_body)) 100)
                       (Quote None (Some ''calm'') True) example_client))))) = []"
proof -
  let ?env1 = "example_env (always (Response 200 example_quote_body)) 100"
  let ?env2 = "example_env (always Raised) 399"
  let ?q = "Quote None (Some ''calm'') True"
  let ?r = "example_quote_result ?env1"
  let ?self1 = "stored ?env1 ?q example_client ?r"
  have k1: "cache_key_of ?env1 ?q = Some ''quote_None_calm_True''"
    by (simp add: quote_cache_key_def str_optional_def str_bool_def)
  have k2: "cache_key_of ?env2 ?q = Some ''quote_None_calm_True''"
    by (simp add: quote_cache_key_def str_optional_def str_bool_def)
  have h4: "net ?env1 (request_of example_client ?q) = Response 200 example_quote_body"
    by (simp add: always_answer)
  have h5: "response_of ?env1 ?q example_quote_body = Some ?r"
    by (simp add: example_quote_response)
  have c1: "call ?env1 ?q example_client = (?r, ?self1, [request_of example_client ?q])"
    by (rule call_fetch_ok [OF example_facts(1) example_facts(10) h4 h5])
  have h8: "to_timestamp (now_valid ?env2) - to_timestamp (now_store ?env1) < cache_ttl ?self1"
    by (simp add: cache_ttl_stored example_facts)
  obtain r2 self2 sent2 where c2: "call ?env2 ?q ?self1 = (r2, self2, sent2)"
    by (cases "call ?env2 ?q ?self1")
  from cache_idempotence [OF example_facts(1) k1 example_facts(10) h4 h5 c1 k2 h8 c2]
  have res: "r2 = ?r" "sent2 = []" by simp_all
  have a: "fst (snd (call ?env1 ?q example_client)) = ?self1" by (simp only: c1 fst_conv snd_conv)
  have b: "fst (call ?env2 ?q ?self1) = ?r" "snd (snd (call ?env2 ?q ?self1)) = []"
    using c2 res by simp_all
  show ?thesis
    unfolding a using example_facts(1) k1 example_facts(10) h4 h5 k2 h8 b
    by (intro conjI)
qed

text \<open>
  C4 as stated fails for the search kind: two identical searches made at the same instant
  return different results when the server's data has changed in between.
\<close>

theorem search_twice_counterexample:
  "fst (call (example_env (always (Response 200 (example_search_body [example_record]))) 100)
         (Search ''paz'' 5)
         (fst (snd (call (example_env (always (Response 200 (example_search_body []))) 100)
                      (Search ''paz'' 5) example_client))))
   \<noteq> fst (call (example_env (always (Response 200 (example_search_body []))) 100)
           (Search ''paz'' 5) example_client)"
proof -
  let ?envA = "example_env (always (Response 200 (example_search_body []))) 100"
  let ?envB = "example_env (always (Response 200 (example_search_body [example_record]))) 100"
  let ?q = "Search ''paz'' 5"
  have nA: "net ?envA (request_of example_client ?q) = Response 200 (example_search_body [])"
    by (simp add: always_answer)
  have nB: "net ?envB (request_of example_client ?q) =
              Response 200 (example_search_body [example_record])"
    by (simp add: always_answer)
  obtain rA where pA: "response_of ?envA ?q (example_search_body []) = Some rA"
    and resA: "map_of rA ''results'' = Some (JArr [])"
    by (simp add: search_response_def search_message_def example_search_body_def)
  obtain rB where pB: "response_of ?envB ?q (example_search_body [example_record]) = Some rB"
    and resB: "map_of rB ''results'' = Some (JArr [example_record])"
    by (simp add: search_response_def search_message_def example_search_body_def
          example_record_def)
  have cA: "call ?envA ?q example_client = (rA, example_client, [request_of example_client ?q])"
    using call_fetch_ok [OF example_facts(1) example_facts(10) nA pA] by simp
  have cB: "call ?envB ?q example_client = (rB, example_client, [request_of example_client ?q])"
    using call_fetch_ok [OF example_facts(1) example_facts(10) nB pB] by simp
  from resA resB have ne: "rB \<noteq> rA" by auto
  have a: "fst (snd (call ?envA ?q example_client)) = example_client"
    by (simp only: cA fst_conv snd_conv)
  have fA: "fst (call ?envA ?q example_client) = rA" by (simp only: cA fst_conv)
  have fB: "fst (call ?envB ?q example_client) = rB" by (simp only: cB fst_conv)
  show ?thesis unfolding a fA fB by (rule ne)
qed

text \<open>
  C6. A connected client whose lookup finds nothing and whose request fails (a transport
  exception, a status other than 200, or a payload the method cannot format) returns the
  offline payload of its kind: \<open>success\<close> false, the kind's own offline text and the
  source \<open>offline_fallback\<close>. The client is left unchanged, cache included. The call
  returns a dict in every case: no exception reaches the caller.
\<close>

theorem failed_request_gives_offline:
  assumes "is_connected self"
    and "cache_miss env q self"
    and "request_failed env q (net env (request_of self q))"
    and "call env q self = (r, self', sent)"
  shows "r = get_offline_response (response_type q) \<and>
         r = [(''success'', JBool False), (''message'', JStr (offline_message q)),
              (''source'', JStr ''offline_fallback'')] \<and>
         map_of r ''success'' = Some (JBool False) \<and>
         self' = self \<and> cache self' = cache self \<and> sent = [request_of self q]"
proof -
  from call_fetch_failed [OF assms(1-3)] assms(4)
  have eq: "r = get_offline_response (response_type q)" "self' = self"
    "sent = [request_of self q]"
    by simp_all
  from eq(1) have r: "r = [(''success'', JBool False), (''message'', JStr (offline_message q)),
                           (''source'', JStr ''offline_fallback'')]"
    by (simp only: offline_payload)
  then have "map_of r ''success'' = Some (JBool False)" by simp
  with eq r show ?thesis by simp
qed

theorem failed_request_gives_offline_witness:
  "is_connected example_client \<and>
   cache_miss (example_env (always (Response 200 (Some (JObj [(''daily_quote'', JStr ''x'')])))) 100)
     (Wisdom True) example_client \<and>
   net (example_env (always (Response 200 (Some (JObj [(''daily_quote'', JStr ''x'')])))) 100)
     (request_of example_client (Wisdom True)) =
     Response 200 (Some (JObj [(''daily_quote'', JStr ''x'')])) \<and>
   response_of (example_env (always (Response 200 (Some (JObj [(''daily_quote'', JStr ''x'')])))) 100)
     (Wisdom True) (Some (JObj [(''daily_quote'', JStr ''x'')])) = None \<and>
   call (example_env (always (Response 200 (Some (JObj [(''daily_quote'', JStr ''x'')])))) 100)
     (Wisdom True) example_client =
     ([(''success'', JBool False), (''message'', JStr offline_wisdom_message),
       (''source'', JStr ''offline_fallback'')],
      example_client, [wisdom_request example_client True]) \<and>
   offline_wisdom_message \<noteq> offline_quote_message \<and>
   offline_wisdom_message \<noteq> offline_tip_message \<and>
   offline_wisdom_message \<noteq> offline_search_message"
proof -
  let ?body = "Some (JObj [(''daily_quote'', JStr ''x'')])"
  let ?env = "example_env (always (Response 200 ?body)) 100"
  let ?q = "Wisdom True"
  have n: "net ?env (request_of example_client ?q) = Response 200 ?body"
    by (simp add: always_answer)
  have raises: "wisdom_response env' True ?body = None" for env'
    by (simp add: wisdom_response_def)
  have p: "response_of ?env ?q ?body = None"
    by (simp only: response_of.simps raises)
  have f: "request_failed ?env ?q (net ?env (request_of example_client ?q))"
    by (simp add: always_answer request_failed_def raises)
  obtain r self' sent where c: "call ?env ?q example_client = (r, self', sent)"
    by (cases "call ?env ?q example_client")
  note res = failed_request_gives_offline [OF example_facts(1) example_facts(10) f c]
  from res have r: "r = [(''success'', JBool False), (''message'', JStr (offline_message ?q)),
                         (''source'', JStr ''offline_fallback'')]"
    by (elim conjE)
  from res have s: "self' = example_client" by (elim conjE)
  from res have t: "sent = [request_of example_client ?q]" by (elim conjE)
  have c': "call ?env ?q example_client =
          ([(''success'', JBool False), (''message'', JStr offline_wisdom_message),
            (''source'', JStr ''offline_fallback'')],
           example_client, [wisdom_request example_client True])"
    unfolding c r s t by simp
  from offline_messages_distinct
  have d: "offline_wisdom_message \<noteq> offline_quote_message"
    "offline_wisdom_message \<noteq> offline_tip_message"
    "offline_wisdom_message \<noteq> offline_search_message"
    by auto
  from example_facts(1) example_facts(10) n p c' d show ?thesis by (intro conjI)
qed

text \<open>
  C7. A connected client whose search is answered with status 200 and a payload holding an
  empty result list (with its \<open>total_found\<close> and \<open>timestamp\<close>) returns a success result
  with the empty list and the no-matches message, not the offline payload.
\<close>

theorem empty_search_is_success:
  assumes "is_connected self"
    and "net env (search_request self query limit) = Response 200 (Some data)"
    and "subscript data ''results'' = Some (JArr [])"
    and "subscript data ''total_found'' = Some total_found"
    and "subscript data ''timestamp'' = Some timestamp"
  shows "search_quotes env query limit self =
           ([(''success'', JBool True),
             (''message'', JStr (no_results_message query)),
             (''results'', JArr []),
             (''total_found'', total_found),
             (''source'', JStr ''remote_server''),
             (''timestamp'', timestamp)], self, [search_request self query limit]) \<and>
         fst (search_quotes env query limit self) \<noteq> get_offline_response ''search''"
proof -
  have "search_quotes env query limit self =
           ([(''success'', JBool True),
             (''message'', JStr (no_results_message query)),
             (''results'', JArr []),
             (''total_found'', total_found),
             (''source'', JStr ''remote_server''),
             (''timestamp'', timestamp)], self, [search_request self query limit])"
    using assms by (simp add: search_quotes_def search_response_def search_message_def)
  then show ?thesis by (simp add: get_offline_response_def)
qed

theorem empty_search_is_success_witness:
  "is_connected example_client \<and>
   net (example_env (always (Response 200 (example_search_body []))) 100)
     (search_request example_client ''xyzzy'' 5) = Response 200 (example_search_body []) \<and>
   search_quotes (example_env (always (Response 200 (example_search_body []))) 100)
     ''xyzzy'' 5 example_client =
     ([(''success'', JBool True),
       (''message'', JStr (no_results_message ''xyzzy'')),
       (''results'', JArr []),
       (''total_found'', JNum 0),
       (''source'', JStr ''remote_server''),
       (''timestamp'', JStr ''2025-03-14T21:30:00'')],
      example_client, [search_request example_client ''xyzzy'' 5])"
proof -
  let ?env = "example_env (always (Response 200 (example_search_body []))) 100"
  let ?data = "JObj [(''query'', JStr ''paz''), (''results'', JArr []),
                     (''total_found'', JNum 0), (''timestamp'', JStr ''2025-03-14T21:30:00'')]"
  have b: "example_search_body [] = Some ?data" by (simp add: example_search_body_def)
  have n: "net ?env (search_request example_client ''xyzzy'' 5) = Response 200 (Some ?data)"
    by (simp add: always_answer b)
  have s: "subscript ?data ''results'' = Some (JArr [])"
    "subscript ?data ''total_found'' = Some (JNum 0)"
    "subscript ?data ''timestamp'' = Some (JStr ''2025-03-14T21:30:00'')"
    by simp_all
  from empty_search_is_success [OF example_facts(1) n s] example_facts(1) n
  show ?thesis unfolding b by (intro conjI) simp_all
qed

text \<open>
  C9. Every dict a query method returns to a client the methods can produce has the keys
  \<open>success\<close>, \<open>message\<close> and \<open>source\<close>, with \<open>success\<close> true exactly when the source is
  \<open>remote_server\<close> and false exactly when it is \<open>offline_fallback\<close>.
\<close>

theorem returned_result_invariant:
  assumes "reachable self" and "call env q self = (r, self', sent)"
  shows "result_invariant r"
  using assms(2)
proof (cases rule: call_cases)
  case offline
  then show ?thesis by (simp add: offline_invariant)
next
  case (hit k e)
  with reachable_cache_invariant [OF assms(1)] show ?thesis
    by (auto simp: cache_invariant_def)
next
  case (fetched body)
  then show ?thesis by (simp add: response_of_invariant)
qed

theorem returned_result_invariant_witness:
  "reachable example_client \<and>
   call (example_env (always (Response 200 example_quote_body)) 100)
     (Quote None (Some ''calm'') True) example_client =
     (example_quote_result (example_env (always (Response 200 example_quote_body)) 100),
      stored (example_env (always (Response 200 example_quote_body)) 100)
        (Quote None (Some ''calm'') True) example_client
        (example_quote_result (example_env (always (Response 200 example_quote_body)) 100)),
      [quote_request example_client None (Some ''calm'') True]) \<and>
   reachable
     (stored (example_env (always (Response 200 example_quote_body)) 100)
        (Quote None (Some ''calm'') True) example_client
        (example_quote_result (example_env (always (Response 200 example_quote_body)) 100))) \<and>
   call (example_env (always Raised) 399) (Quote None (Some ''calm'') True)
     (stored (example_env (always (Response 200 example_quote_body)) 100)
        (Quote None (Some ''calm'') True) example_client
        (example_quote_result (example_env (always (Response 200 example_quote_body)) 100))) =
     (example_quote_result (example_env (always (Response 200 example_quote_body)) 100),
      stored (example_env (always (Response 200 example_quote_body)) 100)
        (Quote None (Some ''calm'') True) example_client
        (example_quote_result (example_env (always (Response 200 example_quote_body)) 100)),
      []) \<and>
   result_invariant
     (example_quote_result (example_env (always (Response 200 example_quote_body)) 100)) \<and>
   map_of (example_quote_result (example_env (always (Response 200 example_quote_body)) 100))
     ''success'' = Some (JBool True) \<and>
   map_of (example_quote_result (example_env (always (Response 200 example_quote_body)) 100))
     ''source'' = Some (JStr ''remote_server'') \<and>
   call (example_env (always Raised) 100) (Search ''paz'' 5) example_client =
     (get_offline_response ''search'', example_client, [search_request example_client ''paz'' 5]) \<and>
   result_invariant (get_offline_response ''search'')"
proof -
  let ?env1 = "example_env (always (Response 200 example_quote_body)) 100"
  let ?env2 = "example_env (always Raised) 399"
  let ?env3 = "example_env (always Raised) 100"
  let ?q = "Quote None (Some ''calm'') True"
  let ?s = "Search ''paz'' 5"
  let ?r = "example_quote_result ?env1"
  let ?self1 = "stored ?env1 ?q example_client ?r"
  have reach0: "reachable example_client"
    by (rule reachable.discovered [OF reachable.created example_client_discovered])
  have n1: "net ?env1 (request_of example_client ?q) = Response 200 example_quote_body"
    by (simp add: always_answer)
  have p1: "response_of ?env1 ?q example_quote_body = Some ?r"
    by (simp add: example_quote_response)
  have c1: "call ?env1 ?q example_client = (?r, ?self1, [request_of example_client ?q])"
    by (rule call_fetch_ok [OF example_facts(1) example_facts(10) n1 p1])
  have reach1: "reachable ?self1"
    by (rule reachable.queried [OF reach0 c1])
  have k: "cache_key_of ?env1 ?q = Some (quote_cache_key None (Some ''calm'') True)"
    "cache_key_of ?env2 ?q = Some (quote_cache_key None (Some ''calm'') True)"
    by simp_all
  have within: "to_timestamp (now_valid ?env2) - to_timestamp (now_store ?env1) < cache_ttl ?self1"
    by (simp add: cache_ttl_stored example_facts)
  have conn1: "is_connected ?self1" by (simp add: is_connected_stored example_facts)
  have ne: "?r \<noteq> []" by (rule response_of_nonempty [OF p1])
  have c2: "call ?env2 ?q ?self1 = (?r, ?self1, [])"
    by (rule call_hit [OF conn1 k(2) stored_hit [OF k(1) within] ne])
  have f3: "request_failed ?env3 ?s (net ?env3 (request_of example_client ?s))"
    by (simp add: always_answer request_failed_def)
  have c3: "call ?env3 ?s example_client =
              (get_offline_response ''search'', example_client,
               [search_request example_client ''paz'' 5])"
    using call_fetch_failed [OF example_facts(1) example_facts(10) f3] by simp
  have fetched_ok: "result_invariant ?r"
    by (rule returned_result_invariant [OF reach0 c1])
  have hit_ok: "result_invariant ?r"
    by (rule returned_result_invariant [OF reach1 c2])
  have offline_ok: "result_invariant (get_offline_response ''search'')"
    by (rule returned_result_invariant [OF reach0 c3])
  have fields: "map_of ?r ''success'' = Some (JBool True)"
    "map_of ?r ''source'' = Some (JStr ''remote_server'')"
    by (simp_all add: example_quote_result_def)
  have c1': "call ?env1 ?q example_client =
               (?r, ?self1, [quote_request example_client None (Some ''calm'') True])"
    using c1 by simp
  from reach0 c1' reach1 c2 hit_ok fields c3 offline_ok show ?thesis by (intro conjI)
qed

section \<open>Endpoint discovery\<close>

text \<open>
  C2, as the code has it. The candidates are the current \<open>server_url\<close> followed by the
  fallback list. When the probe of some position is healthy, discovery binds to the
  candidate at the first such position, having probed every earlier position once, in
  order, and nothing after it. A URL that stands at two positions is probed at both.
\<close>

theorem test_connection_first_healthy:
  assumes "i < length (server_url self # fallback_urls self)"
    and "is_healthy (probe i (health_request ((server_url self # fallback_urls self) ! i)))"
    and "\<forall>j<i. \<not> is_healthy
            (probe j (health_request ((server_url self # fallback_urls self) ! j)))"
  shows "test_connection probe self =
           (True,
            self\<lparr>server_url := (server_url self # fallback_urls self) ! i,
                 is_connected := True\<rparr>,
            map health_request (take (Suc i) (server_url self # fallback_urls self)))"
  using test_connection_loop_first_healthy
          [of i "server_url self # fallback_urls self" probe 0 self] assms
  by (simp add: test_connection_def)

theorem test_connection_first_healthy_witness:
  "test_connection (healthy_only [''http://localhost:8000'']) (init (Some ''http://10.0.0.7:8000'')) =
     (True,
      (init (Some ''http://10.0.0.7:8000''))
        \<lparr>server_url := ''http://localhost:8000'', is_connected := True\<rparr>,
      [health_request ''http://10.0.0.7:8000'',
       health_request ''https://sleep-quotes-mcp.onrender.com'',
       health_request ''https://sleep-quotes-mcp.railway.app'',
       health_request ''https://sleep-quotes-mcp.fly.dev'',
       health_request ''http://localhost:8000''])"
proof -
  let ?self = "init (Some ''http://10.0.0.7:8000'')"
  let ?probe = "healthy_only [''http://localhost:8000'']"
  have cands: "server_url ?self # fallback_urls ?self =
     [''http://10.0.0.7:8000'', ''https://sleep-quotes-mcp.onrender.com'',
      ''https://sleep-quotes-mcp.railway.app'', ''https://sleep-quotes-mcp.fly.dev'',
      ''http://localhost:8000'']"
    by (simp add: init_def)
  have h1: "4 < length (server_url ?self # fallback_urls ?self)"
    unfolding cands by simp
  have h2: "is_healthy (?probe 4 (health_request ((server_url ?self # fallback_urls ?self) ! 4)))"
    unfolding cands by (simp add: healthy_only_def is_healthy_def)
  have h3: "\<forall>j<4. \<not> is_healthy
              (?probe j (health_request ((server_url ?self # fallback_urls ?self) ! j)))"
    unfolding cands
    by (simp add: eval_nat_numeral All_less_Suc healthy_only_def is_healthy_def
          health_request_def)
  from test_connection_first_healthy [where i = 4 and self = ?self and probe = ?probe, OF h1 h2 h3]
  show ?thesis
    unfolding cands by (simp add: eval_nat_numeral)
qed

text \<open>
  C2 as stated fails on the default client, whose \<open>server_url\<close> is the first fallback URL:
  with only the second fallback server healthy, one pass probes the first URL twice.
\<close>

theorem default_candidate_probed_twice_counterexample:
  "snd (snd (test_connection (healthy_only [''https://sleep-quotes-mcp.railway.app''])
               (init None))) =
     [health_request ''https://sleep-quotes-mcp.onrender.com'',
      health_request ''https://sleep-quotes-mcp.onrender.com'',
      health_request ''https://sleep-quotes-mcp.railway.app'']"
proof -
  let ?probe = "healthy_only [''https://sleep-quotes-mcp.railway.app'']"
  have h1: "2 < length (server_url (init None) # fallback_urls (init None))"
    unfolding example_candidates by simp
  have h2: "is_healthy (?probe (0 + 2)
              (health_request ((server_url (init None) # fallback_urls (init None)) ! 2)))"
    unfolding example_candidates by (simp add: healthy_only_def is_healthy_def)
  have h3: "\<forall>j<2. \<not> is_healthy (?probe (0 + j)
              (health_request ((server_url (init None) # fallback_urls (init None)) ! j)))"
    unfolding example_candidates
    by (simp add: eval_nat_numeral All_less_Suc healthy_only_def is_healthy_def
          health_request_def)
  from test_connection_loop_first_healthy [OF h1 h2 h3, of "init None"] show ?thesis
    unfolding test_connection_def append_Cons append_Nil example_candidates
    by (simp add: eval_nat_numeral)
qed

text \<open>
  C5. When no position of the candidate list is healthy, discovery probes every position
  once, returns false and leaves the client disconnected; every query method called on
  that client returns the offline payload of its kind (\<open>success\<close> false, the kind's own
  offline text, the source \<open>offline_fallback\<close>), sends nothing and changes nothing.
\<close>

theorem no_healthy_candidate_offline:
  assumes "\<forall>j<length (server_url self # fallback_urls self).
             \<not> is_healthy
                 (probe j (health_request ((server_url self # fallback_urls self) ! j)))"
    and "test_connection probe self = (ok, self', sent)"
  shows "\<not> ok \<and> self' = self\<lparr>is_connected := False\<rparr> \<and>
         sent = map health_request (server_url self # fallback_urls self) \<and>
         (\<forall>env q. call env q self' = (get_offline_response (response_type q), self', []) \<and>
                  get_offline_response (response_type q) =
                    [(''success'', JBool False), (''message'', JStr (offline_message q)),
                     (''source'', JStr ''offline_fallback'')])"
proof -
  from test_connection_loop_none_healthy [of "server_url self # fallback_urls self" probe 0 self]
    assms
  have eq: "ok = False" "self' = self\<lparr>is_connected := False\<rparr>"
    "sent = map health_request (server_url self # fallback_urls self)"
    by (simp_all add: test_connection_def)
  then have "\<not> is_connected self'" by simp
  then have "\<forall>env q. call env q self' = (get_offline_response (response_type q), self', [])"
    by (simp add: call_offline)
  with eq offline_payload show ?thesis by simp
qed

theorem no_healthy_candidate_offline_witness:
  "test_connection (healthy_only []) (init None) =
     (False, (init None)\<lparr>is_connected := False\<rparr>,
      map health_request (server_url (init None) # fallback_urls (init None))) \<and>
   call (example_env (always (Response 200 example_quote_body)) 100) (Quote None None False)
     ((init None)\<lparr>is_connected := False\<rparr>) =
     ([(''success'', JBool False), (''message'', JStr offline_quote_message),
       (''source'', JStr ''offline_fallback'')],
      (init None)\<lparr>is_connected := False\<rparr>, []) \<and>
   call (example_env (always (Response 200 example_quote_body)) 100) Tip
     ((init None)\<lparr>is_connected := False\<rparr>) =
     ([(''success'', JBool False), (''message'', JStr offline_tip_message),
       (''source'', JStr ''offline_fallback'')],
      (init None)\<lparr>is_connected := False\<rparr>, []) \<and>
   call (example_env (always (Response 200 example_quote_body)) 100) (Search ''paz'' 5)
     ((init None)\<lparr>is_connected := False\<rparr>) =
     ([(''success'', JBool False), (''message'', JStr offline_search_message),
       (''source'', JStr ''offline_fallback'')],
      (init None)\<lparr>is_connected := False\<rparr>, []) \<and>
   call (example_env (always (Response 200 example_quote_body)) 100) (Wisdom True)
     ((init None)\<lparr>is_connected := False\<rparr>) =
     ([(''success'', JBool False), (''message'', JStr offline_wisdom_message),
       (''source'', JStr ''offline_fallback'')],
      (init None)\<lparr>is_connected := False\<rparr>, []) \<and>
   distinct [offline_quote_message, offline_tip_message, offline_search_message,
             offline_wisdom_message]"
proof -
  let ?env = "example_env (always (Response 200 example_quote_body)) 100"
  let ?off = "(init None)\<lparr>is_connected := False\<rparr>"
  have h: "\<forall>j<length (server_url (init None) # fallback_urls (init None)).
             \<not> is_healthy (healthy_only [] j
                 (health_request ((server_url (init None) # fallback_urls (init None)) ! j)))"
    by (simp add: healthy_only_def is_healthy_def)
  obtain ok self' sent where t: "test_connection (healthy_only []) (init None) = (ok, self', sent)"
    by (cases "test_connection (healthy_only []) (init None)")
  note all = no_healthy_candidate_offline [OF h t]
  from all
  have r: "ok = False" "self' = ?off"
    "sent = map health_request (server_url (init None) # fallback_urls (init None))"
    by simp_all
  from all have every:
    "call ?env q self' =
       ([(''success'', JBool False), (''message'', JStr (offline_message q)),
         (''source'', JStr ''offline_fallback'')], self', [])" for q
    by auto
  have d: "distinct [offline_quote_message, offline_tip_message, offline_search_message,
                     offline_wisdom_message]"
    using offline_messages_distinct by simp
  from t r(1,3) have t': "test_connection (healthy_only []) (init None) =
     (False, ?off, map health_request (server_url (init None) # fallback_urls (init None)))"
    unfolding r(2) by simp
  from every [of "Quote None None False"] every [of Tip] every [of "Search ''paz'' 5"]
    every [of "Wisdom True"]
  have calls:
    "call ?env (Quote None None False) ?off =
       ([(''success'', JBool False), (''message'', JStr offline_quote_message),
         (''source'', JStr ''offline_fallback'')], ?off, [])"
    "call ?env Tip ?off =
       ([(''success'', JBool False), (''message'', JStr offline_tip_message),
         (''source'', JStr ''offline_fallback'')], ?off, [])"
    "call ?env (Search ''paz'' 5) ?off =
       ([(''success'', JBool False), (''message'', JStr offline_search_message),
         (''source'', JStr ''offline_fallback'')], ?off, [])"
    "call ?env (Wisdom True) ?off =
       ([(''success'', JBool False), (''message'', JStr offline_wisdom_message),
         (''source'', JStr ''offline_fallback'')], ?off, [])"
    unfolding r(2) by (simp_all only: offline_message.simps)
  from t' calls d show ?thesis by (intro conjI)
qed

section \<open>The lifetime of the daily-wisdom entry\<close>

lemma wisdom_entry_lifetime:
  assumes "is_connected self"
    and "cache_miss env (Wisdom include_tip) self"
    and "net env (wisdom_request self include_tip) = Response 200 body"
    and "wisdom_response env include_tip body = Some r"
  shows "get_daily_wisdom env include_tip self =
           (r, stored env (Wisdom include_tip) self r, [wisdom_request self include_tip])"
    and "cache_ttl (stored env (Wisdom include_tip) self r) = 300"
    and "get_cache (stored env (Wisdom include_tip) self r) now
           (wisdom_cache_key (now_key env) include_tip) =
         (if to_timestamp now - to_timestamp (now_store env) < 300 then Some r else None)"
proof -
  from call_fetch_ok [OF assms(1,2), of body r] assms(3,4)
  show "get_daily_wisdom env include_tip self =
           (r, stored env (Wisdom include_tip) self r, [wisdom_request self include_tip])"
    by simp
  show "cache_ttl (stored env (Wisdom include_tip) self r) = 300" by simp
  show "get_cache (stored env (Wisdom include_tip) self r) now
           (wisdom_cache_key (now_key env) include_tip) =
         (if to_timestamp now - to_timestamp (now_store env) < 300 then Some r else None)"
    by (simp add: get_cache_def is_cache_valid_def)
qed

text \<open>
  C3 does not hold of the code. \<open>get_daily_wisdom\<close> sets \<open>cache_ttl\<close> to 3600 only around
  the write, which records no lifetime, and the validity check reads \<open>cache_ttl\<close> when the
  entry is looked up, when it is 300 again. A daily-wisdom result stored at time 0 is
  therefore gone at time 1800 of the same day: the second call sends its request again
  and, the server being down, returns the offline payload.
\<close>

theorem daily_wisdom_expires_at_normal_ttl:
  "wisdom_cache_key (now_key (example_env (always (Response 200 example_wisdom_body)) 0)) True =
     wisdom_cache_key (now_key (example_env (always Raised) 1800)) True \<and>
   map_option entry_timestamp
     (cache (fst (snd (call (example_env (always (Response 200 example_wisdom_body)) 0)
                         (Wisdom True) example_client)))
        (wisdom_cache_key (now_key (example_env (always Raised) 1800)) True)) = Some 0 \<and>
   call (example_env (always Raised) 1800) (Wisdom True)
     (fst (snd (call (example_env (always (Response 200 example_wisdom_body)) 0)
                  (Wisdom True) example_client))) =
     (get_offline_response ''wisdom'',
      fst (snd (call (example_env (always (Response 200 example_wisdom_body)) 0)
                  (Wisdom True) example_client)),
      [wisdom_request example_client True])"
proof -
  let ?env1 = "example_env (always (Response 200 example_wisdom_body)) 0"
  let ?env2 = "example_env (always Raised) 1800"
  let ?q = "Wisdom True"
  have key: "wisdom_cache_key (now_key ?env1) True = wisdom_cache_key (now_key ?env2) True"
    by (simp add: example_facts wisdom_cache_key_def example_now_def)
  have n1: "net ?env1 (wisdom_request example_client True) = Response 200 example_wisdom_body"
    by (simp add: always_answer)
  obtain r where p: "wisdom_response ?env1 True example_wisdom_body = Some r"
    by (simp add: wisdom_response_def example_wisdom_body_def example_record_def)
  let ?self1 = "stored ?env1 ?q example_client r"
  have miss1: "cache_miss ?env1 ?q example_client" by (rule example_facts(10))
  note life = wisdom_entry_lifetime [OF example_facts(1) miss1 n1 p]
  have c1: "call ?env1 ?q example_client = (r, ?self1, [wisdom_request example_client True])"
    using life(1) by simp
  have s1: "fst (snd (call ?env1 ?q example_client)) = ?self1"
    by (simp only: c1 fst_conv snd_conv)
  have stamp: "map_option entry_timestamp
                 (cache ?self1 (wisdom_cache_key (now_key ?env2) True)) = Some 0"
    unfolding key [symmetric] by (simp add: example_facts)
  have gone: "get_cache ?self1 (now_valid ?env2) (wisdom_cache_key (now_key ?env2) True) = None"
    unfolding key [symmetric] life(3) by (simp add: example_facts)
  have miss2: "cache_miss ?env2 ?q ?self1"
    unfolding cache_miss_def by (simp only: cache_key_of.simps option.case gone)
  have conn: "is_connected ?self1" by (simp add: example_facts)
  have failed: "request_failed ?env2 ?q (net ?env2 (request_of ?self1 ?q))"
    by (simp add: always_answer request_failed_def)
  have req: "request_of ?self1 ?q = wisdom_request example_client True"
    by (simp add: wisdom_request_def)
  have c2: "call ?env2 ?q ?self1 =
              (get_offline_response ''wisdom'', ?self1, [wisdom_request example_client True])"
    using call_fetch_failed [OF conn miss2 failed] req by simp
  show ?thesis
    unfolding s1 using key stamp c2 by (intro conjI)
qed

end
